theory Spec2Isabelle
  imports Main
begin

section \<open>Values of the sandboxed scripts\<close>

text \<open>
  The executor of \<^verbatim>\<open>action/executor.py\<close> runs a short Python script inside a restricted
  namespace and turns what it returns into a response envelope. The values that the
  executor inspects are the JSON-compatible ones (\<^verbatim>\<open>str, int, bool, None, list, dict\<close>),
  objects handed back by tools (inspected with \<^verbatim>\<open>hasattr\<close>), and the objects that
  \<^verbatim>\<open>build_safe_globals\<close> binds itself: modules, builtins, tool proxies, the
  \<^verbatim>\<open>final_answer\<close> lambda and the \<^verbatim>\<open>parallel\<close> coroutine function.
  A \<^verbatim>\<open>dict\<close> is an association list in insertion order with string keys; \<^verbatim>\<open>float\<close> is
  left out. An object is its class name and its attributes.
\<close>

datatype pyval =
    VNone
  | VBool bool
  | VInt int
  | VStr string
  | VList "pyval list"
  | VDict "(string \<times> pyval) list"
  | VObj string "(string \<times> pyval) list"
  | VModule string
  | VBuiltin string
  | VProxy string
  | VFinalAnswer
  | VParallel

type_synonym pydict = "(string \<times> pyval) list"

text \<open>\<^verbatim>\<open>d[k] = v\<close>: an existing key keeps its place, a new key goes to the end.\<close>

fun dict_set :: "pydict \<Rightarrow> string \<Rightarrow> pyval \<Rightarrow> pydict" where
  "dict_set [] k v = [(k, v)]"
| "dict_set ((k', v') # d) k v =
     (if k' = k then (k, v) # d else (k', v') # dict_set d k v)"

text \<open>\<^verbatim>\<open>{**existing, **variables}\<close> and \<^verbatim>\<open>d.update(e)\<close>.\<close>

fun dict_merge :: "pydict \<Rightarrow> pydict \<Rightarrow> pydict" where
  "dict_merge d [] = d"
| "dict_merge d ((k, v) # e) = dict_merge (dict_set d k v) e"

text \<open>
  An exception is recorded with the first of the classes named in the \<^verbatim>\<open>except\<close> clauses
  of \<^verbatim>\<open>run_user_code\<close> that it is an instance of, the name of its own class, and its
  message. (\<^verbatim>\<open>asyncio.TimeoutError\<close> is the builtin \<^verbatim>\<open>TimeoutError\<close>.)
\<close>

datatype exc_class =
  TimeoutError | UnboundLocalError | NameError | ValueError | AttributeError | OtherException

datatype exc = Exc (caught_as: exc_class) (class_name: string) (message: string)

section \<open>Syntax trees\<close>

text \<open>
  The fragment of Python's \<^verbatim>\<open>ast\<close> that the model executes. A keyword argument is a pair
  of its name (\<^verbatim>\<open>None\<close> for \<^verbatim>\<open>**kwargs\<close>) and its value. The target list of an assignment
  is never empty in a parsed tree: \<^verbatim>\<open>Assign t ts e\<close> has the targets \<^verbatim>\<open>t # ts\<close>.
\<close>

datatype expr =
    Constant pyval
  | Name string
  | Call expr "expr list" "(string option \<times> expr) list"
  | Await expr
  | Dict "expr list" "expr list"
  | ListE "expr list"

datatype stmt =
    Assign expr "expr list" expr
  | Return "expr option"
  | Expr expr
  | If_stmt expr "stmt list" "stmt list"
  | While expr "stmt list"
  | Pass

subsection \<open>The complexity metric\<close>

definition MAX_FUNCTIONS :: nat where
  "MAX_FUNCTIONS = 20"

definition TIMEOUT_PER_FUNCTION :: nat where
  "TIMEOUT_PER_FUNCTION = 50"

text \<open>\<^verbatim>\<open>sum(isinstance(node, ast.Call) for node in ast.walk(tree))\<close>\<close>

fun calls_expr :: "expr \<Rightarrow> nat"
  and calls_exprs :: "expr list \<Rightarrow> nat"
  and calls_keywords :: "(string option \<times> expr) list \<Rightarrow> nat" where
  "calls_expr (Constant v) = 0"
| "calls_expr (Name x) = 0"
| "calls_expr (Call f args kws) = 1 + calls_expr f + calls_exprs args + calls_keywords kws"
| "calls_expr (Await e) = calls_expr e"
| "calls_expr (Dict ks vs) = calls_exprs ks + calls_exprs vs"
| "calls_expr (ListE es) = calls_exprs es"
| "calls_exprs [] = 0"
| "calls_exprs (e # es) = calls_expr e + calls_exprs es"
| "calls_keywords [] = 0"
| "calls_keywords ((n, e) # kws) = calls_expr e + calls_keywords kws"

fun calls_stmt :: "stmt \<Rightarrow> nat"
  and calls_stmts :: "stmt list \<Rightarrow> nat" where
  "calls_stmt (Assign t ts e) = calls_expr t + calls_exprs ts + calls_expr e"
| "calls_stmt (Return None) = 0"
| "calls_stmt (Return (Some e)) = calls_expr e"
| "calls_stmt (Expr e) = calls_expr e"
| "calls_stmt (If_stmt c a b) = calls_expr c + calls_stmts a + calls_stmts b"
| "calls_stmt (While c b) = calls_expr c + calls_stmts b"
| "calls_stmt Pass = 0"
| "calls_stmts [] = 0"
| "calls_stmts (s # ss) = calls_stmt s + calls_stmts ss"

definition count_function_calls :: "stmt list \<Rightarrow> nat" where
  "count_function_calls tree = calls_stmts tree"

subsection \<open>KeywordStripper\<close>

text \<open>
  \<^verbatim>\<open>visit_Call\<close> first visits the children, then appends the value of every keyword to the
  positional arguments, in the order of \<^verbatim>\<open>node.keywords\<close>, and empties the keyword list.
\<close>

fun strip_expr :: "expr \<Rightarrow> expr"
  and strip_exprs :: "expr list \<Rightarrow> expr list"
  and strip_keywords :: "(string option \<times> expr) list \<Rightarrow> (string option \<times> expr) list" where
  "strip_expr (Constant v) = Constant v"
| "strip_expr (Name x) = Name x"
| "strip_expr (Call f args kws) =
     (let func = strip_expr f; args' = strip_exprs args; keywords = strip_keywords kws
      in if keywords \<noteq> [] then Call func (args' @ map snd keywords) []
         else Call func args' keywords)"
| "strip_expr (Await e) = Await (strip_expr e)"
| "strip_expr (Dict ks vs) = Dict (strip_exprs ks) (strip_exprs vs)"
| "strip_expr (ListE es) = ListE (strip_exprs es)"
| "strip_exprs [] = []"
| "strip_exprs (e # es) = strip_expr e # strip_exprs es"
| "strip_keywords [] = []"
| "strip_keywords ((n, e) # kws) = (n, strip_expr e) # strip_keywords kws"

fun strip_stmt :: "stmt \<Rightarrow> stmt"
  and strip_stmts :: "stmt list \<Rightarrow> stmt list" where
  "strip_stmt (Assign t ts e) = Assign (strip_expr t) (strip_exprs ts) (strip_expr e)"
| "strip_stmt (Return None) = Return None"
| "strip_stmt (Return (Some e)) = Return (Some (strip_expr e))"
| "strip_stmt (Expr e) = Expr (strip_expr e)"
| "strip_stmt (If_stmt c a b) = If_stmt (strip_expr c) (strip_stmts a) (strip_stmts b)"
| "strip_stmt (While c b) = While (strip_expr c) (strip_stmts b)"
| "strip_stmt Pass = Pass"
| "strip_stmts [] = []"
| "strip_stmts (s # ss) = strip_stmt s # strip_stmts ss"

definition KeywordStripper :: "stmt list \<Rightarrow> stmt list" where
  "KeywordStripper tree = strip_stmts tree"

subsection \<open>AwaitTransformer\<close>

text \<open>A call whose function is a bare name in \<^verbatim>\<open>async_funcs\<close> is wrapped in \<^verbatim>\<open>Await\<close>.\<close>

fun await_expr :: "string list \<Rightarrow> expr \<Rightarrow> expr"
  and await_exprs :: "string list \<Rightarrow> expr list \<Rightarrow> expr list"
  and await_keywords ::
    "string list \<Rightarrow> (string option \<times> expr) list \<Rightarrow> (string option \<times> expr) list" where
  "await_expr fs (Constant v) = Constant v"
| "await_expr fs (Name x) = Name x"
| "await_expr fs (Call f args kws) =
     (let node = Call (await_expr fs f) (await_exprs fs args) (await_keywords fs kws)
      in case await_expr fs f of
           Name x \<Rightarrow> if x \<in> set fs then Await node else node
         | _ \<Rightarrow> node)"
| "await_expr fs (Await e) = Await (await_expr fs e)"
| "await_expr fs (Dict ks vs) = Dict (await_exprs fs ks) (await_exprs fs vs)"
| "await_expr fs (ListE es) = ListE (await_exprs fs es)"
| "await_exprs fs [] = []"
| "await_exprs fs (e # es) = await_expr fs e # await_exprs fs es"
| "await_keywords fs [] = []"
| "await_keywords fs ((n, e) # kws) = (n, await_expr fs e) # await_keywords fs kws"

fun await_stmt :: "string list \<Rightarrow> stmt \<Rightarrow> stmt"
  and await_stmts :: "string list \<Rightarrow> stmt list \<Rightarrow> stmt list" where
  "await_stmt fs (Assign t ts e) =
     Assign (await_expr fs t) (await_exprs fs ts) (await_expr fs e)"
| "await_stmt fs (Return None) = Return None"
| "await_stmt fs (Return (Some e)) = Return (Some (await_expr fs e))"
| "await_stmt fs (Expr e) = Expr (await_expr fs e)"
| "await_stmt fs (If_stmt c a b) =
     If_stmt (await_expr fs c) (await_stmts fs a) (await_stmts fs b)"
| "await_stmt fs (While c b) = While (await_expr fs c) (await_stmts fs b)"
| "await_stmt fs Pass = Pass"
| "await_stmts fs [] = []"
| "await_stmts fs (s # ss) = await_stmt fs s # await_stmts fs ss"

definition AwaitTransformer :: "string list \<Rightarrow> stmt list \<Rightarrow> stmt list" where
  "AwaitTransformer async_funcs tree = await_stmts async_funcs tree"

section \<open>Text\<close>

text \<open>
  A \<^verbatim>\<open>str\<close> is the list of its code points, which are taken below 256 (the Latin-1
  range). There \<^verbatim>\<open>str.lower\<close> moves the letters \<^verbatim>\<open>A\<close> to \<^verbatim>\<open>Z\<close> and the code points
  \<^verbatim>\<open>0xC0\<close> to \<^verbatim>\<open>0xDE\<close> other than \<^verbatim>\<open>0xD7\<close> up by 32, and \<^verbatim>\<open>str.strip\<close> removes the
  twelve code points for which \<^verbatim>\<open>str.isspace\<close> holds. What a library function does with
  a string that needs other code points (an unpaired surrogate, say) is part of the
  library parameters below.
\<close>

definition dq :: char where
  "dq = CHR 0x22"

definition upper_letters :: string where
  "upper_letters =
     ''ABCDEFGHIJKLMNOPQRSTUVWXYZ'' @ [
      CHR 0xC0, CHR 0xC1, CHR 0xC2, CHR 0xC3, CHR 0xC4, CHR 0xC5, CHR 0xC6, CHR 0xC7,
      CHR 0xC8, CHR 0xC9, CHR 0xCA, CHR 0xCB, CHR 0xCC, CHR 0xCD, CHR 0xCE, CHR 0xCF,
      CHR 0xD0, CHR 0xD1, CHR 0xD2, CHR 0xD3, CHR 0xD4, CHR 0xD5, CHR 0xD6, CHR 0xD8,
      CHR 0xD9, CHR 0xDA, CHR 0xDB, CHR 0xDC, CHR 0xDD, CHR 0xDE]"

definition lower_letters :: string where
  "lower_letters =
     ''abcdefghijklmnopqrstuvwxyz'' @ [
      CHR 0xE0, CHR 0xE1, CHR 0xE2, CHR 0xE3, CHR 0xE4, CHR 0xE5, CHR 0xE6, CHR 0xE7,
      CHR 0xE8, CHR 0xE9, CHR 0xEA, CHR 0xEB, CHR 0xEC, CHR 0xED, CHR 0xEE, CHR 0xEF,
      CHR 0xF0, CHR 0xF1, CHR 0xF2, CHR 0xF3, CHR 0xF4, CHR 0xF5, CHR 0xF6, CHR 0xF8,
      CHR 0xF9, CHR 0xFA, CHR 0xFB, CHR 0xFC, CHR 0xFD, CHR 0xFE]"

definition lower_char :: "char \<Rightarrow> char" where
  "lower_char c =
     (case map_of (zip upper_letters lower_letters) c of
        Some l \<Rightarrow> l
      | None \<Rightarrow> c)"

definition lower :: "string \<Rightarrow> string" where
  "lower s = map lower_char s"

fun startswith :: "string \<Rightarrow> string \<Rightarrow> bool" where
  "startswith s [] = True"
| "startswith [] (p # ps) = False"
| "startswith (c # cs) (p # ps) = (c = p \<and> startswith cs ps)"

text \<open>\<^verbatim>\<open>sub in s\<close>\<close>

fun contains :: "string \<Rightarrow> string \<Rightarrow> bool" where
  "contains [] sub = (sub = [])"
| "contains (c # cs) sub = (startswith (c # cs) sub \<or> contains cs sub)"

definition is_space :: "char \<Rightarrow> bool" where
  "is_space c \<longleftrightarrow>
     c \<in> set [CHR '' '', CHR 0x09, CHR 0x0A, CHR 0x0B, CHR 0x0C, CHR 0x0D,
               CHR 0x1C, CHR 0x1D, CHR 0x1E, CHR 0x1F, CHR 0x85, CHR 0xA0]"

definition strip :: "string \<Rightarrow> string" where
  "strip s = rev (dropWhile is_space (rev (dropWhile is_space s)))"

text \<open>Decimal digits of a number, as an f-string prints them.\<close>

fun string_of_nat :: "nat \<Rightarrow> string" where
  "string_of_nat n =
     (if n < 10 then [''0123456789'' ! n]
      else string_of_nat (n div 10) @ [''0123456789'' ! (n mod 10)])"

declare string_of_nat.simps [simp del]

subsection \<open>fix_unterminated_triple_quotes\<close>

text \<open>\<^verbatim>\<open>len(re.findall('"""', code))\<close>: matches are found from the left and do not overlap.\<close>

fun findall_triple_quotes :: "string \<Rightarrow> nat" where
  "findall_triple_quotes (a # b # c # s) =
     (if a = dq \<and> b = dq \<and> c = dq then Suc (findall_triple_quotes s)
      else findall_triple_quotes (b # c # s))"
| "findall_triple_quotes s = 0"

definition fix_unterminated_triple_quotes :: "string \<Rightarrow> string" where
  "fix_unterminated_triple_quotes code =
     (if findall_triple_quotes code mod 2 \<noteq> 0 then code @ [CHR 0x0A, dq, dq, dq]
      else code)"

section \<open>The library and the world outside\<close>

text \<open>
  What the executor calls but does not define is a parameter: the parser \<^verbatim>\<open>ast.parse\<close>
  (restricted to the fragment above), \<^verbatim>\<open>textwrap.dedent\<close>, \<^verbatim>\<open>str()\<close> on a value that is
  not a \<^verbatim>\<open>str\<close>, the exception with which
  \<^verbatim>\<open>json.dump(merged, f, indent=2, ensure_ascii=False)\<close> into the opened file stops
  (\<^verbatim>\<open>None\<close>: it writes the whole text; it stops at an object that is not of a JSON type,
  at a string that UTF-8 cannot encode, at an integer of too many digits, at a device
  that is full), the message with which \<^verbatim>\<open>json.load\<close> rejects the text that such an
  interrupted \<^verbatim>\<open>json.dump\<close> leaves in the file,
  \<^verbatim>\<open>re.search(pattern, text)\<close> as the first group of the first match, and
  \<^verbatim>\<open>log_json_block\<close> of \<^verbatim>\<open>utils.utils\<close>, which prints the result mapping and may raise
  (\<^verbatim>\<open>None\<close>: it returns). The other two loggers, \<^verbatim>\<open>log_step\<close> and \<^verbatim>\<open>log_error\<close>, print
  a text and are left out.
\<close>

record pylib =
  ast_parse :: "string \<Rightarrow> exc + stmt list"
  dedent :: "string \<Rightarrow> string"
  py_str :: "pyval \<Rightarrow> string"
  json_dump :: "pydict \<Rightarrow> exc option"
  truncated_json_message :: "pydict \<Rightarrow> string"
  re_search :: "string \<Rightarrow> string \<Rightarrow> string option"
  log_json_block :: "pydict \<Rightarrow> exc option"

text \<open>
  The session files \<^verbatim>\<open>action/sandbox_state/{session_id}.json\<close>, by session id: absent,
  holding a JSON object, or holding text that is not JSON (with the message of the
  \<^verbatim>\<open>JSONDecodeError\<close> that reading it raises). Only \<^verbatim>\<open>save_session_vars\<close> writes these
  files, so a file that holds JSON holds an object. The file system can refuse a call:
  \<^verbatim>\<open>makedirs_error\<close> is the exception of \<^verbatim>\<open>os.makedirs\<close> for the directory of the files,
  \<^verbatim>\<open>open_r_error\<close> the exception, other than \<^verbatim>\<open>FileNotFoundError\<close>, of opening the file
  of a session id for reading (a name that is too long, a NUL in the name, a missing
  permission), and \<^verbatim>\<open>open_w_error\<close> the exception of opening it for writing (the same,
  and the missing directory of an id with a slash); a refused \<^verbatim>\<open>open\<close> leaves the file as
  it is. The events record what the executor does to its collaborators, in order.
\<close>

datatype session_file = Stored pydict | Garbled string

datatype event =
    ToolsListed
  | FileRead string
  | FileWritten string
  | Invoked string "pyval list"

record world =
  files :: "string \<Rightarrow> session_file option"
  events :: "event list"
  makedirs_error :: "exc option"
  open_r_error :: "string \<Rightarrow> exc option"
  open_w_error :: "string \<Rightarrow> exc option"

text \<open>
  The tool registry \<^verbatim>\<open>multi_mcp\<close>: the names of \<^verbatim>\<open>get_all_tools()\<close>, and what
  \<^verbatim>\<open>function_wrapper(tool_name, *args)\<close> answers, given the time budget of the run and
  the events so far. \<^verbatim>\<open>Pending\<close>: the call is still outstanding when the budget is used up.
\<close>

datatype tool_reply = Returns pyval | Throws exc | Pending

record multi_mcp =
  get_all_tools :: "string list"
  function_wrapper :: "nat \<Rightarrow> event list \<Rightarrow> string \<Rightarrow> pyval list \<Rightarrow> tool_reply"

section \<open>The session store\<close>

definition builtin_types :: "string list" where
  "builtin_types =
     [''bool'', ''int'', ''float'', ''str'', ''list'', ''dict'', ''set'', ''tuple'',
      ''complex'', ''range'', ''enumerate'', ''zip'', ''map'', ''filter'', ''reversed'',
      ''type'']"

text \<open>\<^verbatim>\<open>type(v).__name__\<close>\<close>

fun py_type_name :: "pyval \<Rightarrow> string" where
  "py_type_name VNone = ''NoneType''"
| "py_type_name (VBool b) = ''bool''"
| "py_type_name (VInt i) = ''int''"
| "py_type_name (VStr s) = ''str''"
| "py_type_name (VList vs) = ''list''"
| "py_type_name (VDict d) = ''dict''"
| "py_type_name (VObj c attrs) = c"
| "py_type_name (VModule m) = ''module''"
| "py_type_name (VBuiltin b) =
     (if b \<in> set builtin_types then ''type'' else ''builtin_function_or_method'')"
| "py_type_name (VProxy t) = ''function''"
| "py_type_name VFinalAnswer = ''function''"
| "py_type_name VParallel = ''function''"

definition log_event :: "event \<Rightarrow> world \<Rightarrow> world" where
  "log_event ev w = w\<lparr>events := events w @ [ev]\<rparr>"

text \<open>
  \<^verbatim>\<open>load_session_vars\<close> catches \<^verbatim>\<open>FileNotFoundError\<close> and nothing else: another error of
  \<^verbatim>\<open>open\<close> and the \<^verbatim>\<open>JSONDecodeError\<close> of \<^verbatim>\<open>json.load\<close> are raised.
\<close>

definition load_session_vars :: "string \<Rightarrow> world \<Rightarrow> (exc + pydict) \<times> world" where
  "load_session_vars session_id w =
     (case open_r_error w session_id of
        Some e \<Rightarrow> (Inl e, log_event (FileRead session_id) w)
      | None \<Rightarrow>
          (case files w session_id of
             None \<Rightarrow> (Inr [], log_event (FileRead session_id) w)
           | Some (Stored d) \<Rightarrow> (Inr d, log_event (FileRead session_id) w)
           | Some (Garbled msg) \<Rightarrow>
               (Inl (Exc ValueError ''JSONDecodeError'' msg),
                log_event (FileRead session_id) w)))"

text \<open>
  \<^verbatim>\<open>save_session_vars\<close> makes the directory, reads the existing record (again only a
  missing file is caught), merges, opens the file for writing, which empties it, and
  streams the encoding into it. When \<^verbatim>\<open>json.dump\<close> raises, the file is left with the text
  written so far, which is not JSON: the closing brace is missing.
\<close>

definition save_session_vars ::
  "pylib \<Rightarrow> string \<Rightarrow> pydict \<Rightarrow> world \<Rightarrow> (exc + unit) \<times> world" where
  "save_session_vars lib session_id variables w =
     (case makedirs_error w of
        Some e \<Rightarrow> (Inl e, w)
      | None \<Rightarrow>
          (let w1 = log_event (FileRead session_id) w
           in case open_r_error w session_id of
                Some e \<Rightarrow> (Inl e, w1)
              | None \<Rightarrow>
                  (case files w session_id of
                     Some (Garbled msg) \<Rightarrow> (Inl (Exc ValueError ''JSONDecodeError'' msg), w1)
                   | existing_file \<Rightarrow>
                       (let existing = (case existing_file of Some (Stored d) \<Rightarrow> d | _ \<Rightarrow> []);
                            merged = dict_merge existing variables
                        in case open_w_error w session_id of
                             Some e \<Rightarrow> (Inl e, w1)
                           | None \<Rightarrow>
                               (let w2 = log_event (FileWritten session_id) w1
                                in case json_dump lib merged of
                                     None \<Rightarrow>
                                       (Inr (),
                                        w2\<lparr>files := (files w2)(session_id \<mapsto> Stored merged)\<rparr>)
                                   | Some e \<Rightarrow>
                                       (Inl e,
                                        w2\<lparr>files := (files w2)(session_id \<mapsto>
                                              Garbled (truncated_json_message lib merged))\<rparr>))))))"

section \<open>The sandbox namespace\<close>

definition SAFE_BUILTINS :: "string list" where
  "SAFE_BUILTINS =
     [''bool'', ''int'', ''float'', ''str'', ''list'', ''dict'', ''set'', ''tuple'', ''complex'',
      ''range'', ''enumerate'', ''zip'', ''map'', ''filter'', ''reversed'', ''next'',
      ''abs'', ''round'', ''divmod'', ''pow'', ''sum'', ''min'', ''max'', ''all'', ''any'',
      ''ord'', ''chr'', ''len'', ''sorted'',
      ''isinstance'', ''issubclass'', ''type'', ''id'',
      ''callable'', ''hash'', ''format'',
      ''__import__'',
      ''print'', ''locals'', ''globals'', ''repr'']"

text \<open>The source iterates over a set; the order of the listing is taken.\<close>

definition ALLOWED_MODULES :: "string list" where
  "ALLOWED_MODULES =
     [''math'', ''random'', ''re'', ''datetime'', ''time'', ''collections'', ''itertools'',
      ''statistics'', ''string'', ''functools'', ''operator'', ''json'', ''pprint'', ''copy'',
      ''typing'', ''uuid'', ''hashlib'', ''base64'', ''hmac'', ''struct'', ''decimal'',
      ''fractions'']"

text \<open>
  \<^verbatim>\<open>{tool.name: make_tool_proxy(tool.name, multi_mcp) for tool in multi_mcp.get_all_tools()}\<close>
\<close>

definition tool_proxies :: "multi_mcp \<Rightarrow> pydict" where
  "tool_proxies mcp = dict_merge [] (map (\<lambda>name. (name, VProxy name)) (get_all_tools mcp))"

text \<open>
  \<^verbatim>\<open>build_safe_globals\<close>. The registry object is taken to be truthy, so \<^verbatim>\<open>parallel\<close> is
  always bound; the session variables are loaded when \<^verbatim>\<open>session_id\<close> is not empty.
\<close>

definition build_safe_globals ::
  "pydict \<Rightarrow> string \<Rightarrow> world \<Rightarrow> (exc + pydict) \<times> world" where
  "build_safe_globals mcp_funcs session_id w =
     (let safe_globals =
            dict_merge [(''__builtins__'', VDict (map (\<lambda>k. (k, VBuiltin k)) SAFE_BUILTINS))]
              mcp_funcs;
          safe_globals = foldl (\<lambda>g m. dict_set g m (VModule m)) safe_globals ALLOWED_MODULES;
          safe_globals = dict_set safe_globals ''final_answer'' VFinalAnswer
      in case (if session_id \<noteq> [] then load_session_vars session_id w else (Inr [], w)) of
           (Inl e, w') \<Rightarrow> (Inl e, w')
         | (Inr loaded, w') \<Rightarrow>
             (let safe_globals = dict_merge safe_globals loaded;
                  safe_globals = dict_set safe_globals ''parallel'' VParallel;
                  globals_schema =
                    filter (\<lambda>(k, v). k \<notin> {''__builtins__'', ''final_answer'', ''parallel''})
                      safe_globals
              in (Inr (dict_set safe_globals ''globals_schema'' (VDict globals_schema)), w')))"

section \<open>Running the wrapped script\<close>

text \<open>
  The rewritten statements become the body of \<^verbatim>\<open>async def __main()\<close>, whose globals are the
  sandbox. The semantics below is Python's, for the fragment: a name that is assigned
  anywhere in the body is a local of \<^verbatim>\<open>__main\<close>; other names are looked up in the sandbox
  and then in its \<^verbatim>\<open>__builtins__\<close>. A run yields a value, raises, does not finish within
  the fuel, or leaves the modelled fragment (\<^verbatim>\<open>Beyond\<close>: calls of builtins, of
  \<^verbatim>\<open>parallel\<close> and of tool objects, a tool coroutine that is not awaited where it is
  created, keyword arguments, targets other than names, dictionary keys other than
  strings).
\<close>

datatype 'a result = Ok 'a | Raised exc | OutOfFuel | Beyond

fun carry :: "'a result \<Rightarrow> 'b result" where
  "carry (Raised e) = Raised e"
| "carry OutOfFuel = OutOfFuel"
| "carry r = Beyond"

record run_state =
  local_vars :: pydict
  sandbox :: pydict
  history :: "event list"

fun target_names :: "expr \<Rightarrow> string list"
  and targets_names :: "expr list \<Rightarrow> string list" where
  "target_names (Name x) = [x]"
| "target_names (ListE es) = targets_names es"
| "target_names (Constant v) = []"
| "target_names (Call f args kws) = []"
| "target_names (Await e) = []"
| "target_names (Dict ks vs) = []"
| "targets_names [] = []"
| "targets_names (e # es) = target_names e @ targets_names es"

fun assigned_names :: "stmt \<Rightarrow> string list"
  and assigned_names_block :: "stmt list \<Rightarrow> string list" where
  "assigned_names (Assign t ts e) = targets_names (t # ts)"
| "assigned_names (Return r) = []"
| "assigned_names (Expr e) = []"
| "assigned_names (If_stmt c a b) = assigned_names_block a @ assigned_names_block b"
| "assigned_names (While c b) = assigned_names_block b"
| "assigned_names Pass = []"
| "assigned_names_block [] = []"
| "assigned_names_block (s # ss) = assigned_names s @ assigned_names_block ss"

definition load_name :: "string list \<Rightarrow> string \<Rightarrow> run_state \<Rightarrow> pyval result" where
  "load_name L x s =
     (if x \<in> set L then
        (case map_of (local_vars s) x of
           Some v \<Rightarrow> Ok v
         | None \<Rightarrow>
             Raised (Exc UnboundLocalError ''UnboundLocalError''
               (''cannot access local variable '' @ [CHR 0x27] @ x @ [CHR 0x27]
                @ '' where it is not associated with a value'')))
      else
        (case map_of (sandbox s) x of
           Some v \<Rightarrow> Ok v
         | None \<Rightarrow>
             (case map_of (sandbox s) ''__builtins__'' of
                Some (VDict b) \<Rightarrow>
                  (case map_of b x of
                     Some v \<Rightarrow> Ok v
                   | None \<Rightarrow>
                       Raised (Exc NameError ''NameError''
                         (''name '' @ [CHR 0x27] @ x @ [CHR 0x27] @ '' is not defined'')))
              | _ \<Rightarrow> Beyond)))"

text \<open>Truth value; an object of a tool's class is taken to define neither
  \<^verbatim>\<open>__bool__\<close> nor \<^verbatim>\<open>__len__\<close>.\<close>

fun truthy :: "pyval \<Rightarrow> bool" where
  "truthy VNone = False"
| "truthy (VBool b) = b"
| "truthy (VInt i) = (i \<noteq> 0)"
| "truthy (VStr s) = (s \<noteq> [])"
| "truthy (VList vs) = (vs \<noteq> [])"
| "truthy (VDict d) = (d \<noteq> [])"
| "truthy v = True"

text \<open>
  Calling a value. \<^verbatim>\<open>final_answer\<close> is
  \<^verbatim>\<open>lambda x: safe_globals.setdefault("result_holder", x)\<close>.
\<close>

definition call_value :: "pyval \<Rightarrow> pyval list \<Rightarrow> run_state \<Rightarrow> pyval result \<times> run_state" where
  "call_value callee args s =
     (case callee of
        VFinalAnswer \<Rightarrow>
          (case args of
             [x] \<Rightarrow>
               (case map_of (sandbox s) ''result_holder'' of
                  Some held \<Rightarrow> (Ok held, s)
                | None \<Rightarrow> (Ok x, s\<lparr>sandbox := dict_set (sandbox s) ''result_holder'' x\<rparr>))
           | [] \<Rightarrow>
               (Raised (Exc OtherException ''TypeError''
                  (''build_safe_globals.<locals>.<lambda>() missing 1 required positional ''
                   @ ''argument: '' @ [CHR 0x27] @ ''x'' @ [CHR 0x27])), s)
           | _ \<Rightarrow>
               (Raised (Exc OtherException ''TypeError''
                  (''build_safe_globals.<locals>.<lambda>() takes 1 positional argument but ''
                   @ string_of_nat (length args) @ '' were given'')), s))
      | VProxy t \<Rightarrow> (Beyond, s)
      | VParallel \<Rightarrow> (Beyond, s)
      | VBuiltin b \<Rightarrow> (Beyond, s)
      | VObj c attrs \<Rightarrow> (Beyond, s)
      | _ \<Rightarrow>
          (Raised (Exc OtherException ''TypeError''
             ([CHR 0x27] @ py_type_name callee @ [CHR 0x27] @ '' object is not callable'')), s))"

text \<open>\<^verbatim>\<open>await v\<close> for a value that is not a coroutine.\<close>

definition await_value :: "pyval \<Rightarrow> pyval result" where
  "await_value v =
     (case v of
        VObj c attrs \<Rightarrow> Beyond
      | _ \<Rightarrow>
          Raised (Exc OtherException ''TypeError''
            (''object '' @ py_type_name v @ '' can'' @ [CHR 0x27] @ ''t be used in ''
             @ [CHR 0x27] @ ''await'' @ [CHR 0x27] @ '' expression'')))"

text \<open>
  Awaiting the coroutine of a tool proxy: \<^verbatim>\<open>await mcp.function_wrapper(tool_name, *args)\<close>
  under \<^verbatim>\<open>asyncio.wait_for\<close>. This is the only place where the task is suspended, and so
  the only place where the timeout can cancel it.
\<close>

definition invoke ::
  "multi_mcp \<Rightarrow> nat \<Rightarrow> string \<Rightarrow> pyval list \<Rightarrow> run_state \<Rightarrow> pyval result \<times> run_state" where
  "invoke mcp timeout tool_name args s =
     (let s' = s\<lparr>history := history s @ [Invoked tool_name args]\<rparr>
      in case function_wrapper mcp timeout (history s) tool_name args of
           Returns v \<Rightarrow> (Ok v, s')
         | Throws e \<Rightarrow> (Raised e, s')
         | Pending \<Rightarrow> (Raised (Exc TimeoutError ''TimeoutError'' []), s'))"

function (sequential) eval_expr ::
    "string list \<Rightarrow> multi_mcp \<Rightarrow> nat \<Rightarrow> expr \<Rightarrow> run_state \<Rightarrow> pyval result \<times> run_state"
  and eval_exprs ::
    "string list \<Rightarrow> multi_mcp \<Rightarrow> nat \<Rightarrow> expr list \<Rightarrow> run_state \<Rightarrow> pyval list result \<times> run_state"
  and eval_items ::
    "string list \<Rightarrow> multi_mcp \<Rightarrow> nat \<Rightarrow> expr list \<Rightarrow> expr list \<Rightarrow> run_state
      \<Rightarrow> pydict result \<times> run_state" where
  "eval_expr L M T (Constant v) s = (Ok v, s)"
| "eval_expr L M T (Name x) s = (load_name L x s, s)"
| "eval_expr L M T (Call f args kws) s =
     (if kws \<noteq> [] then (Beyond, s)
      else case eval_expr L M T f s of
             (Ok callee, s1) \<Rightarrow>
               (case eval_exprs L M T args s1 of
                  (Ok vs, s2) \<Rightarrow> call_value callee vs s2
                | (r, s2) \<Rightarrow> (carry r, s2))
           | (r, s1) \<Rightarrow> (carry r, s1))"
| "eval_expr L M T (Await (Call f args kws)) s =
     (if kws \<noteq> [] then (Beyond, s)
      else case eval_expr L M T f s of
             (Ok callee, s1) \<Rightarrow>
               (case eval_exprs L M T args s1 of
                  (Ok vs, s2) \<Rightarrow>
                    (case callee of
                       VProxy tool_name \<Rightarrow> invoke M T tool_name vs s2
                     | _ \<Rightarrow>
                         (case call_value callee vs s2 of
                            (Ok v, s3) \<Rightarrow> (await_value v, s3)
                          | (r, s3) \<Rightarrow> (carry r, s3)))
                | (r, s2) \<Rightarrow> (carry r, s2))
           | (r, s1) \<Rightarrow> (carry r, s1))"
| "eval_expr L M T (Await e) s =
     (case eval_expr L M T e s of
        (Ok v, s1) \<Rightarrow> (await_value v, s1)
      | (r, s1) \<Rightarrow> (carry r, s1))"
| "eval_expr L M T (Dict ks vs) s =
     (case eval_items L M T ks vs s of
        (Ok items, s1) \<Rightarrow> (Ok (VDict (dict_merge [] items)), s1)
      | (r, s1) \<Rightarrow> (carry r, s1))"
| "eval_expr L M T (ListE es) s =
     (case eval_exprs L M T es s of
        (Ok vs, s1) \<Rightarrow> (Ok (VList vs), s1)
      | (r, s1) \<Rightarrow> (carry r, s1))"
| "eval_exprs L M T [] s = (Ok [], s)"
| "eval_exprs L M T (e # es) s =
     (case eval_expr L M T e s of
        (Ok v, s1) \<Rightarrow>
          (case eval_exprs L M T es s1 of
             (Ok vs, s2) \<Rightarrow> (Ok (v # vs), s2)
           | (r, s2) \<Rightarrow> (carry r, s2))
      | (r, s1) \<Rightarrow> (carry r, s1))"
| "eval_items L M T [] [] s = (Ok [], s)"
| "eval_items L M T (k # ks) (v # vs) s =
     (case eval_expr L M T k s of
        (Ok key, s1) \<Rightarrow>
          (case eval_expr L M T v s1 of
             (Ok val, s2) \<Rightarrow>
               (case eval_items L M T ks vs s2 of
                  (Ok items, s3) \<Rightarrow>
                    (case key of VStr name \<Rightarrow> (Ok ((name, val) # items), s3)
                     | _ \<Rightarrow> (Beyond, s3))
                | (r, s3) \<Rightarrow> (carry r, s3))
           | (r, s2) \<Rightarrow> (carry r, s2))
      | (r, s1) \<Rightarrow> (carry r, s1))"
| "eval_items L M T [] (v # vs) s = (Beyond, s)"
| "eval_items L M T (k # ks) [] s = (Beyond, s)"
  by pat_completeness auto
termination
  by (relation "measure (\<lambda>x. case x of
        Inl (L, M, T, e, s) \<Rightarrow> size e
      | Inr (Inl (L, M, T, es, s)) \<Rightarrow> size_list size es
      | Inr (Inr (L, M, T, ks, vs, s)) \<Rightarrow> size_list size ks + size_list size vs)") auto

text \<open>Binding the value of an assignment to its targets, from left to right.\<close>

fun store_targets :: "expr list \<Rightarrow> pyval \<Rightarrow> run_state \<Rightarrow> unit result \<times> run_state" where
  "store_targets [] v s = (Ok (), s)"
| "store_targets (Name x # ts) v s =
     store_targets ts v (s\<lparr>local_vars := dict_set (local_vars s) x v\<rparr>)"
| "store_targets (t # ts) v s = (Beyond, s)"

datatype flow = Next | Ret pyval

text \<open>Statements. Each iteration of a loop uses one unit of fuel.\<close>

fun exec_stmt ::
    "string list \<Rightarrow> multi_mcp \<Rightarrow> nat \<Rightarrow> nat \<Rightarrow> stmt \<Rightarrow> run_state \<Rightarrow> flow result \<times> run_state"
  and exec_block ::
    "string list \<Rightarrow> multi_mcp \<Rightarrow> nat \<Rightarrow> nat \<Rightarrow> stmt list \<Rightarrow> run_state \<Rightarrow> flow result \<times> run_state"
  where
  "exec_stmt L M T n (Assign t ts e) s =
     (case eval_expr L M T e s of
        (Ok v, s1) \<Rightarrow>
          (case store_targets (t # ts) v s1 of
             (Ok u, s2) \<Rightarrow> (Ok Next, s2)
           | (r, s2) \<Rightarrow> (carry r, s2))
      | (r, s1) \<Rightarrow> (carry r, s1))"
| "exec_stmt L M T n (Return None) s = (Ok (Ret VNone), s)"
| "exec_stmt L M T n (Return (Some e)) s =
     (case eval_expr L M T e s of
        (Ok v, s1) \<Rightarrow> (Ok (Ret v), s1)
      | (r, s1) \<Rightarrow> (carry r, s1))"
| "exec_stmt L M T n (Expr e) s =
     (case eval_expr L M T e s of
        (Ok v, s1) \<Rightarrow> (Ok Next, s1)
      | (r, s1) \<Rightarrow> (carry r, s1))"
| "exec_stmt L M T n (If_stmt c a b) s =
     (case eval_expr L M T c s of
        (Ok v, s1) \<Rightarrow> (if truthy v then exec_block L M T n a s1 else exec_block L M T n b s1)
      | (r, s1) \<Rightarrow> (carry r, s1))"
| "exec_stmt L M T 0 (While c b) s = (OutOfFuel, s)"
| "exec_stmt L M T (Suc n) (While c b) s =
     (case eval_expr L M T c s of
        (Ok v, s1) \<Rightarrow>
          (if truthy v then
             (case exec_block L M T n b s1 of
                (Ok Next, s2) \<Rightarrow> exec_stmt L M T n (While c b) s2
              | other \<Rightarrow> other)
           else (Ok Next, s1))
      | (r, s1) \<Rightarrow> (carry r, s1))"
| "exec_stmt L M T n Pass s = (Ok Next, s)"
| "exec_block L M T n [] s = (Ok Next, s)"
| "exec_block L M T n (x # xs) s =
     (case exec_stmt L M T n x s of
        (Ok Next, s1) \<Rightarrow> exec_block L M T n xs s1
      | other \<Rightarrow> other)"

section \<open>The return-shape rewrite\<close>

text \<open>
  A top-level \<^verbatim>\<open>return <name>\<close> becomes \<^verbatim>\<open>return {"<name>": <name>}\<close>. When there is no
  top-level \<^verbatim>\<open>return\<close> and \<^verbatim>\<open>result\<close> is the first target of a top-level assignment,
  \<^verbatim>\<open>return result\<close> is appended, after the rewrite and so as it is.
\<close>

fun rewrite_return :: "stmt \<Rightarrow> stmt" where
  "rewrite_return (Return (Some (Name varname))) =
     Return (Some (Dict [Constant (VStr varname)] [Name varname]))"
| "rewrite_return node = node"

fun is_Return :: "stmt \<Rightarrow> bool" where
  "is_Return (Return r) = True"
| "is_Return node = False"

fun result_vars :: "stmt list \<Rightarrow> string list" where
  "result_vars [] = []"
| "result_vars (Assign (Name x) ts e # body) = x # result_vars body"
| "result_vars (node # body) = result_vars body"

definition normalize_returns :: "stmt list \<Rightarrow> stmt list" where
  "normalize_returns tree =
     (let new_body = map rewrite_return tree;
          return_found = list_ex is_Return tree
      in if \<not> return_found \<and> ''result'' \<in> set (result_vars tree)
         then new_body @ [Return (Some (Name ''result''))]
         else new_body)"

section \<open>The result serializer\<close>

fun attr :: "pyval \<Rightarrow> string \<Rightarrow> pyval option" where
  "attr (VObj c attrs) a = map_of attrs a"
| "attr v a = None"

fun is_json_type :: "pyval \<Rightarrow> bool" where
  "is_json_type VNone = True"
| "is_json_type (VBool b) = True"
| "is_json_type (VInt i) = True"
| "is_json_type (VStr s) = True"
| "is_json_type (VList vs) = True"
| "is_json_type (VDict d) = True"
| "is_json_type v = False"

text \<open>A value inside an f-string.\<close>

definition format_value :: "pylib \<Rightarrow> pyval \<Rightarrow> string" where
  "format_value lib v = (case v of VStr s \<Rightarrow> s | _ \<Rightarrow> py_str lib v)"

text \<open>\<^verbatim>\<open>"\n".join(...)\<close>; the number is the index of the item.\<close>

fun join_lines :: "nat \<Rightarrow> pyval list \<Rightarrow> exc + string" where
  "join_lines i [] = Inr []"
| "join_lines i (VStr t # ts) =
     (case join_lines (Suc i) ts of
        Inl e \<Rightarrow> Inl e
      | Inr rest \<Rightarrow> Inr (if ts = [] then t else t @ [CHR 0x0A] @ rest))"
| "join_lines i (v # ts) =
     Inl (Exc OtherException ''TypeError''
       (''sequence item '' @ string_of_nat i @ '': expected str instance, ''
        @ py_type_name v @ '' found''))"

definition serialize_result :: "pylib \<Rightarrow> pyval \<Rightarrow> exc + pyval" where
  "serialize_result lib v =
     (if is_json_type v then Inr v
      else case (attr v ''success'', attr v ''content'', attr v ''error'') of
        (Some success, Some content, Some error) \<Rightarrow>
          (if \<not> truthy success
           then Inr (VStr (''Error executing tool: '' @ format_value lib error))
           else Inr (if truthy content then content else VStr ''Success''))
      | _ \<Rightarrow>
          (case attr v ''content'' of
             Some (VList items) \<Rightarrow>
               (case join_lines 0 (List.map_filter (\<lambda>x. attr x ''text'') items) of
                  Inl e \<Rightarrow> Inl e
                | Inr text \<Rightarrow> Inr (VStr text))
           | _ \<Rightarrow> Inr (VStr (py_str lib v))))"

text \<open>\<^verbatim>\<open>{k: serialize_result(v) for k, v in returned.items()}\<close>\<close>

fun serialize_items :: "pylib \<Rightarrow> pydict \<Rightarrow> exc + pydict" where
  "serialize_items lib [] = Inr []"
| "serialize_items lib ((k, v) # d) =
     (case serialize_result lib v of
        Inl e \<Rightarrow> Inl e
      | Inr v' \<Rightarrow>
          (case serialize_items lib d of
             Inl e \<Rightarrow> Inl e
           | Inr d' \<Rightarrow> Inr ((k, v') # d')))"

definition error_signal :: "string \<Rightarrow> bool" where
  "error_signal v \<longleftrightarrow>
     startswith (lower v) ''error executing tool'' \<or> startswith (lower v) ''error:''
     \<or> contains (lower v) ''failed''"

text \<open>The first loop: the first serialized string that signals an error.\<close>

fun scan_values :: "pydict \<Rightarrow> pyval option" where
  "scan_values [] = None"
| "scan_values ((k, VStr v) # d) = (if error_signal v then Some (VStr v) else scan_values d)"
| "scan_values ((k, v) # d) = scan_values d"

text \<open>The second loop, over the unserialized mapping: the message for the first value with
  a false \<^verbatim>\<open>success\<close>.\<close>

fun scan_outcomes :: "pydict \<Rightarrow> pyval option" where
  "scan_outcomes [] = None"
| "scan_outcomes ((k, v) # d) =
     (case attr v ''success'' of
        Some success \<Rightarrow>
          (if \<not> truthy success then
             (case attr v ''error'' of
                Some error \<Rightarrow>
                  Some (if truthy error then error else VStr (''Tool '' @ k @ '' failed''))
              | None \<Rightarrow> Some (VStr (''Tool '' @ k @ '' failed'')))
           else scan_outcomes d)
      | None \<Rightarrow> scan_outcomes d)"

section \<open>The response envelope\<close>

text \<open>
  The envelope is \<^verbatim>\<open>status\<close> with \<^verbatim>\<open>result\<close> (also under \<^verbatim>\<open>raw\<close>) or \<^verbatim>\<open>error\<close>. The wall-clock
  fields \<^verbatim>\<open>execution_time\<close> and \<^verbatim>\<open>total_time\<close> and the text of \<^verbatim>\<open>traceback\<close> are left out.
\<close>

datatype envelope = Success pydict | Failure pyval

definition bulb :: string where
  "bulb = [CHR 0xF0, CHR 0x9F, CHR 0x92, CHR 0xA1]"

definition warning_sign :: string where
  "warning_sign = [CHR 0xE2, CHR 0x9A, CHR 0xA0, CHR 0xEF, CHR 0xB8, CHR 0x8F]"

definition browser_tools :: "string list" where
  "browser_tools =
     [''open_tab'', ''search_google'', ''input_text_by_index'', ''click_element_by_index'']"

definition unbound_local_report :: "pylib \<Rightarrow> string \<Rightarrow> string" where
  "unbound_local_report lib error_msg =
     (let suggestion =
        (case re_search lib
                (''local variable '' @ [CHR 0x27] @ ''(''  @ [CHR 0x5C] @ ''w+)'' @ [CHR 0x27]
                 @ '' referenced before assignment'') error_msg of
           Some var_name \<Rightarrow>
             ''UnboundLocalError: Variable '' @ [CHR 0x27] @ var_name @ [CHR 0x27]
             @ '' was accessed before being assigned a value.\<newline>This usually happens when:\<newline>  1. A tool call failed and the result wasn't checked before use\<newline>  2. The variable is used in a conditional that didn't execute\<newline>  3. The tool returned an error instead of expected data\<newline>\<newline>''
             @ bulb
             @ '' Fix: Always check if tool calls succeeded and handle errors:\<newline>   result = await tool_name(...)\<newline>   if isinstance(result, str) and result.startswith('[error]'):\<newline>       # Handle error case\<newline>   else:\<newline>       # Use result safely\<newline>''
         | None \<Rightarrow>
             ''UnboundLocalError: A variable was accessed before being assigned.\<newline>Check your code to ensure all variables are assigned before use.'')
      in suggestion @ ''\<newline>\<newline>Original error: '' @ error_msg)"

definition name_error_report :: "string \<Rightarrow> string \<Rightarrow> string" where
  "name_error_report type_name error_msg =
     (if list_ex (\<lambda>tool. contains error_msg tool) browser_tools
      then type_name @ '': '' @ error_msg @ ''\<newline>\<newline>'' @ warning_sign
           @ ''  Browser tools are not available. Make sure the browser MCP server is running:\<newline>   uv run .''
           @ [CHR 0x5C] @ ''browserMCP'' @ [CHR 0x5C] @ ''browser_mcp_sse.py''
      else type_name @ '': '' @ error_msg @ ''\<newline>\<newline>'' @ bulb
           @ '' This usually means a function or variable name is misspelled or not defined.'')"

definition value_error_report :: "string \<Rightarrow> string" where
  "value_error_report error_msg =
     (if contains error_msg ''expects'' \<and> contains error_msg ''args''
      then ''ValueError: Tool argument mismatch.\<newline>'' @ error_msg @ ''\<newline>\<newline>'' @ bulb
           @ '' Fix: Check the tool's expected arguments and provide them in the correct order.''
      else ''ValueError: '' @ error_msg)"

definition attribute_error_report :: "pylib \<Rightarrow> string \<Rightarrow> string" where
  "attribute_error_report lib error_msg =
     (case re_search lib ([CHR 0x27] @ ''('' @ [CHR 0x5C] @ ''w+)'' @ [CHR 0x27]) error_msg of
        Some attr_name \<Rightarrow>
          ''AttributeError: '' @ [CHR 0x27] @ attr_name @ [CHR 0x27]
          @ '' attribute not found.\<newline>\<newline>This often happens when:\<newline>  1. Extracting data from dynamic websites (real estate, e-commerce)\<newline>  2. The page structure changed or content hasn't loaded yet\<newline>  3. Trying to access attributes on None/empty objects\<newline>\<newline>''
          @ bulb
          @ '' Fix strategies:\<newline>  - Wait for page to load: use '' @ [CHR 0x60] @ ''wait(3)'' @ [CHR 0x60]
          @ '' after navigation\<newline>  - Check if object exists before accessing: '' @ [CHR 0x60]
          @ ''if result and hasattr(result, '' @ [CHR 0x27] @ attr_name @ [CHR 0x27] @ ''):''
          @ [CHR 0x60] @ ''\<newline>  - Use '' @ [CHR 0x60] @ ''get_comprehensive_markdown()'' @ [CHR 0x60]
          @ '' to see actual page content\<newline>  - Try extracting raw text first, then parse patterns\<newline>  - Scroll to reveal content: ''
          @ [CHR 0x60] @ ''scroll_down(500)'' @ [CHR 0x60]
          @ ''\<newline>  - Take screenshot to verify page state: '' @ [CHR 0x60] @ ''take_screenshot()''
          @ [CHR 0x60] @ ''\<newline>\<newline>Original error: '' @ error_msg
      | None \<Rightarrow>
          ''AttributeError: An attribute was accessed that doesn't exist.\<newline>\<newline>This often happens with dynamic websites where content loads via JavaScript.\<newline>Try waiting longer, checking if objects exist, or extracting raw text instead.\<newline>\<newline>Original error: ''
          @ error_msg)"

definition exception_report :: "string \<Rightarrow> string \<Rightarrow> string" where
  "exception_report type_name error_msg =
     (if contains error_msg (''Executable doesn'' @ [CHR 0x27] @ ''t exist'')
         \<or> contains error_msg ''chrome.exe''
      then type_name @ '': '' @ error_msg @ ''\<newline>\<newline>'' @ warning_sign
           @ ''  Playwright browser executable not found. Run: python -m playwright install chromium''
      else if contains error_msg ''Tool'' \<or> contains (lower error_msg) ''tool''
      then type_name @ '': '' @ error_msg @ ''\<newline>\<newline>'' @ bulb
           @ '' This might be a tool execution error. Check:\<newline>  1. Tool name is correct\<newline>  2. Arguments match the tool's expected format\<newline>  3. Tool returned valid data (not an error message)''
      else type_name @ '': '' @ error_msg)"

text \<open>
  The \<^verbatim>\<open>except\<close> clauses of \<^verbatim>\<open>run_user_code\<close>. \<^verbatim>\<open>func_count\<close> is \<^verbatim>\<open>None\<close> while the first
  statement of the \<^verbatim>\<open>try\<close> block has not assigned it; the timeout clause reads it.
\<close>

definition on_exception :: "pylib \<Rightarrow> nat option \<Rightarrow> exc \<Rightarrow> envelope result" where
  "on_exception lib func_count e =
     (case caught_as e of
        TimeoutError \<Rightarrow>
          (case func_count of
             Some n \<Rightarrow>
               Ok (Failure (VStr (''Execution timed out after ''
                                  @ string_of_nat (n * TIMEOUT_PER_FUNCTION) @ '' seconds'')))
           | None \<Rightarrow>
               Raised (Exc UnboundLocalError ''UnboundLocalError''
                 (''cannot access local variable '' @ [CHR 0x27] @ ''func_count'' @ [CHR 0x27]
                  @ '' where it is not associated with a value'')))
      | UnboundLocalError \<Rightarrow> Ok (Failure (VStr (unbound_local_report lib (message e))))
      | NameError \<Rightarrow> Ok (Failure (VStr (name_error_report (class_name e) (message e))))
      | ValueError \<Rightarrow> Ok (Failure (VStr (value_error_report (message e))))
      | AttributeError \<Rightarrow> Ok (Failure (VStr (attribute_error_report lib (message e))))
      | OtherException \<Rightarrow> Ok (Failure (VStr (exception_report (class_name e) (message e)))))"

section \<open>run_user_code\<close>

text \<open>After the script has returned: serialize, look for failures, log, save, answer.
  (The assignment of lines 274 and 275 is overwritten by line 277, and it raises when
  line 277 does.)\<close>

definition save_and_succeed ::
  "pylib \<Rightarrow> string \<Rightarrow> pydict \<Rightarrow> world \<Rightarrow> envelope result \<times> world" where
  "save_and_succeed lib session_id result_value w =
     (case log_json_block lib result_value of
        Some e \<Rightarrow> (Raised e, w)
      | None \<Rightarrow>
          (case save_session_vars lib session_id result_value w of
             (Inl e, w') \<Rightarrow> (Raised e, w')
           | (Inr u, w') \<Rightarrow> (Ok (Success result_value), w')))"

definition collect_result ::
  "pylib \<Rightarrow> string \<Rightarrow> pyval \<Rightarrow> world \<Rightarrow> envelope result \<times> world" where
  "collect_result lib session_id returned w =
     (case returned of
        VDict d \<Rightarrow>
          (case serialize_items lib d of
             Inl e \<Rightarrow> (Raised e, w)
           | Inr result_value \<Rightarrow>
               (case scan_values result_value of
                  Some v \<Rightarrow> (Ok (Failure v), w)
                | None \<Rightarrow>
                    (case scan_outcomes d of
                       Some error_msg \<Rightarrow> (Ok (Failure error_msg), w)
                     | None \<Rightarrow> save_and_succeed lib session_id result_value w)))
      | _ \<Rightarrow>
          (case serialize_result lib returned of
             Inl e \<Rightarrow> (Raised e, w)
           | Inr v \<Rightarrow> save_and_succeed lib session_id [(''result'', v)] w))"

text \<open>\<^verbatim>\<open>fix_unterminated_triple_quotes(textwrap.dedent(code.strip()))\<close>\<close>

definition cleaned_code :: "pylib \<Rightarrow> string \<Rightarrow> string" where
  "cleaned_code lib code = fix_unterminated_triple_quotes (dedent lib (strip code))"

definition timeout_for :: "nat \<Rightarrow> nat" where
  "timeout_for func_count = max 3 (func_count * TIMEOUT_PER_FUNCTION)"

text \<open>The two tree rewrites and the return-shape rewrite, in the order of the source.\<close>

definition rewrite_tree :: "string list \<Rightarrow> stmt list \<Rightarrow> stmt list" where
  "rewrite_tree async_funcs tree =
     normalize_returns (AwaitTransformer async_funcs (KeywordStripper tree))"

text \<open>
  The \<^verbatim>\<open>try\<close> block after the complexity check: \<^verbatim>\<open>run_checked\<close> builds the namespace and
  parses the cleaned text, \<^verbatim>\<open>execute_tree\<close> rewrites the tree, runs it and collects the
  result. \<^verbatim>\<open>compile\<close> rejects an empty function body. \<^verbatim>\<open>Raised\<close> is an exception on its
  way to the \<^verbatim>\<open>except\<close> clauses.
\<close>

text \<open>A function that ends without \<^verbatim>\<open>return\<close> returns \<^verbatim>\<open>None\<close>.\<close>

fun returned_value :: "flow \<Rightarrow> pyval" where
  "returned_value Next = VNone"
| "returned_value (Ret v) = v"

definition initial_state :: "pydict \<Rightarrow> world \<Rightarrow> run_state" where
  "initial_state globals w = \<lparr>local_vars = [], sandbox = globals, history = events w\<rparr>"

definition execute_tree ::
  "pylib \<Rightarrow> multi_mcp \<Rightarrow> nat \<Rightarrow> string \<Rightarrow> nat \<Rightarrow> string list \<Rightarrow> pydict
    \<Rightarrow> stmt list \<Rightarrow> world \<Rightarrow> envelope result \<times> world" where
  "execute_tree lib mcp fuel session_id func_count async_funcs globals tree w =
     (let body = rewrite_tree async_funcs tree
      in if body = [] then
           (Raised (Exc ValueError ''ValueError'' ''empty body on AsyncFunctionDef''), w)
         else
           (case exec_block (assigned_names_block body) mcp (timeout_for func_count) fuel body
                   (initial_state globals w) of
              (Ok outcome, s) \<Rightarrow>
                collect_result lib session_id (returned_value outcome)
                  (w\<lparr>events := history s\<rparr>)
            | (r, s) \<Rightarrow> (carry r, w\<lparr>events := history s\<rparr>)))"

definition run_checked ::
  "pylib \<Rightarrow> multi_mcp \<Rightarrow> nat \<Rightarrow> string \<Rightarrow> string \<Rightarrow> nat \<Rightarrow> world
    \<Rightarrow> envelope result \<times> world" where
  "run_checked lib mcp fuel code session_id func_count w =
     (let tool_funcs = tool_proxies mcp
      in case build_safe_globals tool_funcs session_id (log_event ToolsListed w) of
           (Inl e, w1) \<Rightarrow> (Raised e, w1)
         | (Inr globals, w1) \<Rightarrow>
             (case ast_parse lib (cleaned_code lib code) of
                Inl e \<Rightarrow> (Raised e, w1)
              | Inr tree \<Rightarrow>
                  execute_tree lib mcp fuel session_id func_count (map fst tool_funcs)
                    globals tree w1))"

text \<open>
  \<^verbatim>\<open>run_user_code\<close>: the result is the envelope, an exception that leaves the function, no
  answer within the fuel, or a run outside the fragment; with it the world afterwards.
\<close>

definition run_user_code ::
  "pylib \<Rightarrow> multi_mcp \<Rightarrow> nat \<Rightarrow> string \<Rightarrow> string \<Rightarrow> world \<Rightarrow> envelope result \<times> world" where
  "run_user_code lib mcp fuel code session_id w =
     (case ast_parse lib code of
        Inl e \<Rightarrow> (on_exception lib None e, w)
      | Inr counted \<Rightarrow>
          (let func_count = count_function_calls counted
           in if func_count > MAX_FUNCTIONS then
                (Ok (Failure (VStr (''Too many functions ('' @ string_of_nat func_count @ '' > ''
                                    @ string_of_nat MAX_FUNCTIONS @ '')''))), w)
              else
                (case run_checked lib mcp fuel code session_id func_count w of
                   (Raised e, w') \<Rightarrow> (on_exception lib (Some func_count) e, w')
                 | other \<Rightarrow> other)))"

section \<open>Suspension points\<close>

text \<open>
  The task of the script can only be suspended, and so cancelled by the timeout, where it
  awaits. \<^verbatim>\<open>suspends\<close> says whether a tree has an \<^verbatim>\<open>Await\<close> node: one that
  \<^verbatim>\<open>AwaitTransformer\<close> put around a tool call, or one of the script's own (which a use of
  \<^verbatim>\<open>parallel\<close> needs).
\<close>

fun suspends_expr :: "expr \<Rightarrow> bool"
  and suspends_exprs :: "expr list \<Rightarrow> bool"
  and suspends_keywords :: "(string option \<times> expr) list \<Rightarrow> bool" where
  "suspends_expr (Constant v) = False"
| "suspends_expr (Name x) = False"
| "suspends_expr (Call f args kws) =
     (suspends_expr f \<or> suspends_exprs args \<or> suspends_keywords kws)"
| "suspends_expr (Await e) = True"
| "suspends_expr (Dict ks vs) = (suspends_exprs ks \<or> suspends_exprs vs)"
| "suspends_expr (ListE es) = suspends_exprs es"
| "suspends_exprs [] = False"
| "suspends_exprs (e # es) = (suspends_expr e \<or> suspends_exprs es)"
| "suspends_keywords [] = False"
| "suspends_keywords ((n, e) # kws) = (suspends_expr e \<or> suspends_keywords kws)"

fun suspends_stmt :: "stmt \<Rightarrow> bool"
  and suspends_block :: "stmt list \<Rightarrow> bool" where
  "suspends_stmt (Assign t ts e) = suspends_expr e"
| "suspends_stmt (Return None) = False"
| "suspends_stmt (Return (Some e)) = suspends_expr e"
| "suspends_stmt (Expr e) = suspends_expr e"
| "suspends_stmt (If_stmt c a b) = (suspends_expr c \<or> suspends_block a \<or> suspends_block b)"
| "suspends_stmt (While c b) = (suspends_expr c \<or> suspends_block b)"
| "suspends_stmt Pass = False"
| "suspends_block [] = False"
| "suspends_block (s # ss) = (suspends_stmt s \<or> suspends_block ss)"

section \<open>The reading of the specification for keyword arguments\<close>

text \<open>
  The specification says that named arguments become positional arguments in the
  declaration order of the callee. For a callee declared with the parameters \<^verbatim>\<open>params\<close>,
  the positional arguments fill the first parameters and every further parameter takes
  the keyword argument of its name. This definition follows the specification, not the
  source; it is compared with \<^verbatim>\<open>KeywordStripper\<close> below.
\<close>

definition declaration_order_args ::
  "string list \<Rightarrow> expr list \<Rightarrow> (string option \<times> expr) list \<Rightarrow> expr list" where
  "declaration_order_args params args kws =
     args @ List.map_filter (\<lambda>p. map_of kws (Some p)) (drop (length args) params)"

section \<open>Example scripts and collaborators\<close>

text \<open>
  A registry with the one tool \<^verbatim>\<open>open_tab\<close>, which always answers with an outcome
  whose \<^verbatim>\<open>success\<close> is false.
\<close>

definition failed_outcome :: pyval where
  "failed_outcome =
     VObj ''ActionResultOutput''
       [(''success'', VBool False), (''content'', VNone), (''error'', VStr ''boom'')]"

definition example_mcp :: multi_mcp where
  "example_mcp =
     \<lparr>get_all_tools = [''open_tab''],
      function_wrapper = (\<lambda>budget past tool_name args. Returns failed_outcome)\<rparr>"

text \<open>
  The encoder of the examples, on the values of this model: \<^verbatim>\<open>json.dump\<close> with an indent
  (Python 3.11) stops at the first object that is not of a JSON type with a
  \<^verbatim>\<open>TypeError\<close>, and at the first integer of more than 4300 digits with a \<^verbatim>\<open>ValueError\<close>;
  a string of code points below 256 is always written.
\<close>

fun int_digits :: "nat \<Rightarrow> nat" where
  "int_digits n = (if n < 10 then 1 else Suc (int_digits (n div 10)))"

declare int_digits.simps [simp del]

definition not_serializable :: "pyval \<Rightarrow> exc" where
  "not_serializable v =
     Exc OtherException ''TypeError''
       (''Object of type '' @ py_type_name v @ '' is not JSON serializable'')"

definition too_many_digits :: exc where
  "too_many_digits =
     Exc ValueError ''ValueError''
       (''Exceeds the limit (4300 digits) for integer string conversion; ''
        @ ''use sys.set_int_max_str_digits() to increase the limit'')"

definition digits_error :: "int \<Rightarrow> exc option" where
  "digits_error i = (if 4300 < int_digits (nat \<bar>i\<bar>) then Some too_many_digits else None)"

fun encoder_error :: "pyval \<Rightarrow> exc option"
  and encoder_error_list :: "pyval list \<Rightarrow> exc option"
  and encoder_error_items :: "pydict \<Rightarrow> exc option" where
  "encoder_error VNone = None"
| "encoder_error (VBool b) = None"
| "encoder_error (VInt i) = digits_error i"
| "encoder_error (VStr s) = None"
| "encoder_error (VList vs) = encoder_error_list vs"
| "encoder_error (VDict d) = encoder_error_items d"
| "encoder_error (VObj c attrs) = Some (not_serializable (VObj c attrs))"
| "encoder_error (VModule m) = Some (not_serializable (VModule m))"
| "encoder_error (VBuiltin b) = Some (not_serializable (VBuiltin b))"
| "encoder_error (VProxy t) = Some (not_serializable (VProxy t))"
| "encoder_error VFinalAnswer = Some (not_serializable VFinalAnswer)"
| "encoder_error VParallel = Some (not_serializable VParallel)"
| "encoder_error_list [] = None"
| "encoder_error_list (v # vs) =
     (case encoder_error v of Some e \<Rightarrow> Some e | None \<Rightarrow> encoder_error_list vs)"
| "encoder_error_items [] = None"
| "encoder_error_items ((k, v) # d) =
     (case encoder_error v of Some e \<Rightarrow> Some e | None \<Rightarrow> encoder_error_items d)"

text \<open>
  The file system of the examples: the directory can be made and has no directories in
  it. \<^verbatim>\<open>open\<close> refuses a name with a NUL and a name of more than 255 bytes, for reading
  and for writing, and it refuses to write under a directory that does not exist, which
  is where the file of a session id with a slash belongs.
\<close>

definition session_path :: "string \<Rightarrow> string" where
  "session_path session_id = ''action/sandbox_state/'' @ session_id @ ''.json''"

definition file_name_too_long :: "string \<Rightarrow> exc" where
  "file_name_too_long session_id =
     Exc OtherException ''OSError''
       (''[Errno 36] File name too long: '' @ [CHR 0x27] @ session_path session_id
        @ [CHR 0x27])"

definition example_open_error :: "string \<Rightarrow> exc option" where
  "example_open_error session_id =
     (if CHR 0x00 \<in> set session_id
      then Some (Exc ValueError ''ValueError'' ''embedded null byte'')
      else if 255 < length (session_id @ ''.json'')
      then Some (file_name_too_long session_id)
      else None)"

definition example_write_error :: "string \<Rightarrow> exc option" where
  "example_write_error session_id =
     (case example_open_error session_id of
        Some e \<Rightarrow> Some e
      | None \<Rightarrow>
          (if CHR ''/'' \<in> set session_id
           then Some (Exc OtherException ''FileNotFoundError''
                        (''[Errno 2] No such file or directory: '' @ [CHR 0x27]
                         @ session_path session_id @ [CHR 0x27]))
           else None))"

definition long_session_id :: string where
  "long_session_id = replicate 300 (CHR ''a'')"

text \<open>
  Script texts, and what \<^verbatim>\<open>ast.parse\<close> makes of them. The logger of the example
  library is \<^verbatim>\<open>json.dumps\<close> with an indent: it raises where the encoder does.
\<close>

definition return_one_script :: string where
  "return_one_script = ''x = 1\<newline>return x''"

definition flagged_script :: string where
  "flagged_script = ''x = '' @ [dq] @ ''Payment failed'' @ [dq] @ ''\<newline>return x''"

definition forever_script :: string where
  "forever_script = ''while True:\<newline>    pass''"

definition many_calls_script :: string where
  "many_calls_script = concat (replicate 20 ''f()\<newline>'') @ ''f()''"

definition tool_script :: string where
  "tool_script = ''r = open_tab('' @ [dq] @ ''u'' @ [dq] @ '')\<newline>return r''"

definition unterminated_script :: string where
  "unterminated_script = ''x = '' @ [dq, dq, dq] @ ''abc''"

definition final_answer_script :: string where
  "final_answer_script = ''final_answer(42)''"

definition keyword_script :: string where
  "keyword_script = ''open_tab(url='' @ [dq] @ ''u'' @ [dq] @ '', new=1)''"

definition positional_script :: string where
  "positional_script = ''open_tab('' @ [dq] @ ''u'' @ [dq] @ '', 1)''"

definition result_script :: string where
  "result_script = ''result = 5''"

definition module_list_script :: string where
  "module_list_script = ''x = [math]\<newline>return x''"

definition comment_script :: string where
  "comment_script = ''result = 5  # '' @ [dq, dq, dq]"

definition example_scripts :: "(string \<times> (exc + stmt list)) list" where
  "example_scripts =
     [(return_one_script,
         Inr [Assign (Name ''x'') [] (Constant (VInt 1)), Return (Some (Name ''x''))]),
      (flagged_script,
         Inr [Assign (Name ''x'') [] (Constant (VStr ''Payment failed'')),
              Return (Some (Name ''x''))]),
      (forever_script, Inr [While (Constant (VBool True)) [Pass]]),
      (many_calls_script, Inr (replicate 21 (Expr (Call (Name ''f'') [] [])))),
      (tool_script,
         Inr [Assign (Name ''r'') [] (Call (Name ''open_tab'') [Constant (VStr ''u'')] []),
              Return (Some (Name ''r''))]),
      (unterminated_script,
         Inl (Exc OtherException ''SyntaxError''
                (''unterminated triple-quoted string literal (detected at line 1) ''
                 @ ''(<unknown>, line 1)''))),
      (unterminated_script @ [CHR 0x0A, dq, dq, dq],
         Inr [Assign (Name ''x'') [] (Constant (VStr ''abc\<newline>''))]),
      (final_answer_script,
         Inr [Expr (Call (Name ''final_answer'') [Constant (VInt 42)] [])]),
      (keyword_script,
         Inr [Expr (Call (Name ''open_tab'') []
                 [(Some ''url'', Constant (VStr ''u'')), (Some ''new'', Constant (VInt 1))])]),
      (positional_script,
         Inr [Expr (Call (Name ''open_tab'') [Constant (VStr ''u''), Constant (VInt 1)] [])]),
      (result_script, Inr [Assign (Name ''result'') [] (Constant (VInt 5))]),
      (module_list_script,
         Inr [Assign (Name ''x'') [] (ListE [Name ''math'']), Return (Some (Name ''x''))]),
      (comment_script, Inr [Assign (Name ''result'') [] (Constant (VInt 5))]),
      (comment_script @ [CHR 0x0A, dq, dq, dq],
         Inl (Exc OtherException ''SyntaxError''
                (''unterminated triple-quoted string literal (detected at line 2) ''
                 @ ''(<unknown>, line 2)'')))]"

definition example_lib :: pylib where
  "example_lib =
     \<lparr>ast_parse =
        (\<lambda>code. case map_of example_scripts code of
                   Some parsed \<Rightarrow> parsed
                 | None \<Rightarrow>
                     Inl (Exc OtherException ''SyntaxError''
                            ''invalid syntax (<unknown>, line 1)'')),
      dedent = (\<lambda>text. text),
      py_str = (\<lambda>v. ''<object>''),
      json_dump = encoder_error_items,
      truncated_json_message = (\<lambda>d. ''Expecting value: line 4 column 5 (char 25)''),
      re_search = (\<lambda>pattern text. None),
      log_json_block = encoder_error_items\<rparr>"

definition no_sessions :: world where
  "no_sessions =
     \<lparr>files = Map.empty, events = [], makedirs_error = None,
      open_r_error = example_open_error, open_w_error = example_write_error\<rparr>"

definition one_session :: world where
  "one_session =
     \<lparr>files = [''s'' \<mapsto> Stored [(''a'', VInt 1)]], events = [], makedirs_error = None,
      open_r_error = example_open_error, open_w_error = example_write_error\<rparr>"

section \<open>Dictionaries and the session store\<close>

lemma map_of_dict_set: "map_of (dict_set d k v) = (map_of d)(k \<mapsto> v)"
  by (induction d) (auto simp: fun_eq_iff)

lemma map_of_dict_merge_other:
  "k \<notin> fst ` set m \<Longrightarrow> map_of (dict_merge d m) k = map_of d k"
  by (induction d m rule: dict_merge.induct) (auto simp: map_of_dict_set)

lemma map_of_dict_merge_new:
  "distinct (map fst m) \<Longrightarrow> (k, v) \<in> set m \<Longrightarrow> map_of (dict_merge d m) k = Some v"
proof (induction d m rule: dict_merge.induct)
  case (1 d)
  then show ?case by simp
next
  case (2 d k' v' e)
  show ?case
  proof (cases "(k, v) \<in> set e")
    case True
    with 2 show ?thesis by simp
  next
    case False
    with "2.prems" have kv: "k = k'" "v = v'" by auto
    with "2.prems" have "k \<notin> fst ` set e" by auto
    then have "map_of (dict_merge (dict_set d k' v') e) k = map_of (dict_set d k' v') k"
      by (rule map_of_dict_merge_other)
    with kv show ?thesis by (simp add: map_of_dict_set)
  qed
qed

lemma save_written:
  assumes "makedirs_error w = None" "open_r_error w sid = None" "open_w_error w sid = None"
    and "files w sid = Some (Stored old) \<or> files w sid = None \<and> old = []"
    and "json_dump lib (dict_merge old m) = None"
  shows "save_session_vars lib sid m w =
     (Inr (), (log_event (FileWritten sid) (log_event (FileRead sid) w))
                \<lparr>files := (files w)(sid \<mapsto> Stored (dict_merge old m))\<rparr>)"
  using assms by (auto simp: save_session_vars_def log_event_def Let_def)

lemma save_interrupted:
  assumes "makedirs_error w = None" "open_r_error w sid = None" "open_w_error w sid = None"
    and "files w sid = Some (Stored old) \<or> files w sid = None \<and> old = []"
    and "json_dump lib (dict_merge old m) = Some e"
  shows "save_session_vars lib sid m w =
     (Inl e, (log_event (FileWritten sid) (log_event (FileRead sid) w))
               \<lparr>files := (files w)(sid \<mapsto>
                    Garbled (truncated_json_message lib (dict_merge old m)))\<rparr>)"
  using assms by (auto simp: save_session_vars_def log_event_def Let_def)

lemma example_open_s: "example_open_error ''s'' = None" "example_write_error ''s'' = None"
  by (simp_all add: example_open_error_def example_write_error_def)

lemma example_lib_fields:
  "json_dump example_lib = encoder_error_items"
  "log_json_block example_lib = encoder_error_items"
  "truncated_json_message example_lib d = ''Expecting value: line 4 column 5 (char 25)''"
  "dedent example_lib t = t"
  by (simp_all add: example_lib_def)

lemma no_sessions_fields:
  "files no_sessions = Map.empty" "events no_sessions = []"
  "makedirs_error no_sessions = None"
  "open_r_error no_sessions = example_open_error"
  "open_w_error no_sessions = example_write_error"
  by (simp_all add: no_sessions_def)

lemma one_session_fields:
  "files one_session = [''s'' \<mapsto> Stored [(''a'', VInt 1)]]" "events one_session = []"
  "makedirs_error one_session = None"
  "open_r_error one_session = example_open_error"
  "open_w_error one_session = example_write_error"
  by (simp_all add: one_session_def)

lemma digits_error_small:
  "digits_error 1 = None" "digits_error 2 = None" "digits_error 5 = None"
  by code_simp+

text \<open>
  Claim C8, as amended. \<^verbatim>\<open>load_session_vars\<close> returns the empty mapping when the file of the
  session does not exist, which is the one error it catches: another error of \<^verbatim>\<open>open\<close> is
  raised. \<^verbatim>\<open>save_session_vars\<close> reads the stored mapping the same way (the empty one when
  there is no file). When the directory can be made, the file can be opened for reading
  and for writing and \<^verbatim>\<open>json.dump\<close> writes the merge of the stored mapping with \<open>m\<close>, the
  merge is the new record: a key that \<open>m\<close> does not have keeps its stored value, a key of
  \<open>m\<close> gets the value of \<open>m\<close>; and saving \<^verbatim>\<open>{"a": 1}\<close> and then \<^verbatim>\<open>{"b": 2}\<close> for a session
  without a file leaves \<^verbatim>\<open>{"a": 1, "b": 2}\<close>. When \<^verbatim>\<open>json.dump\<close> raises instead, the save
  raises and the file is left with truncated text.
\<close>

theorem session_store_merges_when_written:
  "(open_r_error w sid = None \<and> files w sid = None \<longrightarrow> fst (load_session_vars sid w) = Inr [])
   \<and> (open_r_error w sid = Some e \<longrightarrow> fst (load_session_vars sid w) = Inl e)
   \<and> (makedirs_error w = None \<and> open_r_error w sid = None \<and> open_w_error w sid = None
        \<and> (files w sid = Some (Stored old) \<or> files w sid = None \<and> old = []) \<longrightarrow>
        (json_dump lib (dict_merge old m) = None \<longrightarrow>
           fst (save_session_vars lib sid m w) = Inr ()
           \<and> files (snd (save_session_vars lib sid m w)) sid = Some (Stored (dict_merge old m)))
        \<and> (json_dump lib (dict_merge old m) = Some e' \<longrightarrow>
             fst (save_session_vars lib sid m w) = Inl e'
             \<and> files (snd (save_session_vars lib sid m w)) sid
                 = Some (Garbled (truncated_json_message lib (dict_merge old m)))))
   \<and> (k \<notin> fst ` set m \<longrightarrow> map_of (dict_merge old m) k = map_of old k)
   \<and> (distinct (map fst m) \<and> (k, v) \<in> set m \<longrightarrow> map_of (dict_merge old m) k = Some v)
   \<and> (makedirs_error w = None \<and> open_r_error w sid = None \<and> open_w_error w sid = None
        \<and> files w sid = None \<and> json_dump lib [(''a'', VInt 1)] = None
        \<and> json_dump lib [(''a'', VInt 1), (''b'', VInt 2)] = None \<longrightarrow>
        files (snd (save_session_vars lib sid [(''b'', VInt 2)]
                      (snd (save_session_vars lib sid [(''a'', VInt 1)] w)))) sid
        = Some (Stored [(''a'', VInt 1), (''b'', VInt 2)]))"
proof (intro conjI impI)
  assume "open_r_error w sid = None \<and> files w sid = None"
  then show "fst (load_session_vars sid w) = Inr []"
    by (simp add: load_session_vars_def)
next
  assume "open_r_error w sid = Some e"
  then show "fst (load_session_vars sid w) = Inl e"
    by (simp add: load_session_vars_def)
next
  assume a: "makedirs_error w = None \<and> open_r_error w sid = None \<and> open_w_error w sid = None
        \<and> (files w sid = Some (Stored old) \<or> files w sid = None \<and> old = [])"
    and d: "json_dump lib (dict_merge old m) = None"
  from a d have "save_session_vars lib sid m w =
     (Inr (), (log_event (FileWritten sid) (log_event (FileRead sid) w))
                \<lparr>files := (files w)(sid \<mapsto> Stored (dict_merge old m))\<rparr>)"
    by (intro save_written) simp_all
  then show "fst (save_session_vars lib sid m w) = Inr ()"
    and "files (snd (save_session_vars lib sid m w)) sid = Some (Stored (dict_merge old m))"
    by simp_all
next
  assume a: "makedirs_error w = None \<and> open_r_error w sid = None \<and> open_w_error w sid = None
        \<and> (files w sid = Some (Stored old) \<or> files w sid = None \<and> old = [])"
    and d: "json_dump lib (dict_merge old m) = Some e'"
  from a d have "save_session_vars lib sid m w =
     (Inl e', (log_event (FileWritten sid) (log_event (FileRead sid) w))
               \<lparr>files := (files w)(sid \<mapsto>
                    Garbled (truncated_json_message lib (dict_merge old m)))\<rparr>)"
    by (intro save_interrupted) simp_all
  then show "fst (save_session_vars lib sid m w) = Inl e'"
    and "files (snd (save_session_vars lib sid m w)) sid
           = Some (Garbled (truncated_json_message lib (dict_merge old m)))"
    by simp_all
next
  assume "k \<notin> fst ` set m"
  then show "map_of (dict_merge old m) k = map_of old k"
    by (rule map_of_dict_merge_other)
next
  assume "distinct (map fst m) \<and> (k, v) \<in> set m"
  then show "map_of (dict_merge old m) k = Some v"
    by (simp add: map_of_dict_merge_new)
next
  assume a: "makedirs_error w = None \<and> open_r_error w sid = None \<and> open_w_error w sid = None
        \<and> files w sid = None \<and> json_dump lib [(''a'', VInt 1)] = None
        \<and> json_dump lib [(''a'', VInt 1), (''b'', VInt 2)] = None"
  let ?w1 = "(log_event (FileWritten sid) (log_event (FileRead sid) w))
               \<lparr>files := (files w)(sid \<mapsto> Stored [(''a'', VInt 1)])\<rparr>"
  from a have "save_session_vars lib sid [(''a'', VInt 1)] w = (Inr (), ?w1)"
    using save_written [of w sid "[]" lib "[(''a'', VInt 1)]"] by simp
  moreover from a have "save_session_vars lib sid [(''b'', VInt 2)] ?w1 =
     (Inr (), (log_event (FileWritten sid) (log_event (FileRead sid) ?w1))
                \<lparr>files := (files ?w1)(sid \<mapsto> Stored [(''a'', VInt 1), (''b'', VInt 2)])\<rparr>)"
    using save_written [of ?w1 sid "[(''a'', VInt 1)]" lib "[(''b'', VInt 2)]"]
    by (simp add: log_event_def)
  ultimately show "files (snd (save_session_vars lib sid [(''b'', VInt 2)]
                      (snd (save_session_vars lib sid [(''a'', VInt 1)] w)))) sid
        = Some (Stored [(''a'', VInt 1), (''b'', VInt 2)])"
    by simp
qed

text \<open>
  The contract at the session \<^verbatim>\<open>s\<close>, without a file and with the file \<^verbatim>\<open>{"a": 1}\<close>, and
  at a session id with a NUL, which \<^verbatim>\<open>open\<close> refuses.
\<close>

theorem session_store_merges_when_written_witness:
  "fst (load_session_vars ''s'' no_sessions) = Inr []
   \<and> fst (load_session_vars [CHR 0x00] no_sessions)
       = Inl (Exc ValueError ''ValueError'' ''embedded null byte'')
   \<and> fst (save_session_vars example_lib ''s'' [(''b'', VInt 2)] one_session) = Inr ()
   \<and> files (snd (save_session_vars example_lib ''s'' [(''b'', VInt 2)] one_session)) ''s''
       = Some (Stored [(''a'', VInt 1), (''b'', VInt 2)])
   \<and> fst (save_session_vars example_lib ''s'' [(''x'', VList [VModule ''math''])] one_session)
       = Inl (not_serializable (VModule ''math''))
   \<and> files (snd (save_session_vars example_lib ''s'' [(''x'', VList [VModule ''math''])] one_session)) ''s''
       = Some (Garbled ''Expecting value: line 4 column 5 (char 25)'')
   \<and> map_of (dict_merge [(''a'', VInt 1)] [(''b'', VInt 2)]) ''a'' = Some (VInt 1)
   \<and> map_of (dict_merge [(''a'', VInt 1)] [(''b'', VInt 2)]) ''b'' = Some (VInt 2)
   \<and> files (snd (save_session_vars example_lib ''s'' [(''b'', VInt 2)]
                   (snd (save_session_vars example_lib ''s'' [(''a'', VInt 1)] no_sessions)))) ''s''
       = Some (Stored [(''a'', VInt 1), (''b'', VInt 2)])"
proof -
  have n: "example_open_error [CHR 0x00] = Some (Exc ValueError ''ValueError'' ''embedded null byte'')"
    by (simp add: example_open_error_def)
  show ?thesis
    using session_store_merges_when_written [of no_sessions "''s''" "too_many_digits" "[]"
            example_lib "[(''a'', VInt 1)]" "too_many_digits" "''z''" VNone]
          session_store_merges_when_written [of no_sessions "[CHR 0x00]"
            "Exc ValueError ''ValueError'' ''embedded null byte''" "[]"
            example_lib "[]" "too_many_digits" "''z''" VNone]
          session_store_merges_when_written [of one_session "''s''" "too_many_digits"
            "[(''a'', VInt 1)]" example_lib "[(''b'', VInt 2)]" "too_many_digits" "''a''" "VInt 2"]
          session_store_merges_when_written [of one_session "''s''" "too_many_digits"
            "[(''a'', VInt 1)]" example_lib "[(''b'', VInt 2)]" "too_many_digits" "''b''" "VInt 2"]
          session_store_merges_when_written [of one_session "''s''" "too_many_digits"
            "[(''a'', VInt 1)]" example_lib "[(''x'', VList [VModule ''math''])]"
            "not_serializable (VModule ''math'')" "''b''" "VInt 2"]
    by (simp add: no_sessions_fields one_session_fields example_lib_fields example_open_s
        digits_error_small n)
qed

text \<open>
  Claim C8 as stated fails in both halves. No record exists for a session id of 300
  letters, and loading it raises the \<^verbatim>\<open>OSError\<close> of \<^verbatim>\<open>open\<close> instead of returning the empty
  mapping. Saving a mapping with a module in it into the record \<^verbatim>\<open>{"a": 1}\<close> raises the
  \<^verbatim>\<open>TypeError\<close> of \<^verbatim>\<open>json.dump\<close> and leaves truncated text: the key \<^verbatim>\<open>a\<close> is not retained.
\<close>

theorem session_store_contract_counterexample:
  "files no_sessions long_session_id = None
   \<and> fst (load_session_vars long_session_id no_sessions)
       = Inl (file_name_too_long long_session_id)
   \<and> files one_session ''s'' = Some (Stored [(''a'', VInt 1)])
   \<and> fst (save_session_vars example_lib ''s'' [(''x'', VList [VModule ''math''])] one_session)
       = Inl (Exc OtherException ''TypeError'' ''Object of type module is not JSON serializable'')
   \<and> files (snd (save_session_vars example_lib ''s'' [(''x'', VList [VModule ''math''])] one_session)) ''s''
       = Some (Garbled ''Expecting value: line 4 column 5 (char 25)'')"
  by code_simp

section \<open>The tree rewrites\<close>

lemma calls_exprs_append: "calls_exprs (a @ b) = calls_exprs a + calls_exprs b"
  by (induction a) auto

lemma calls_exprs_values: "calls_exprs (map snd kws) = calls_keywords kws"
  by (induction kws) auto

lemma calls_strip:
  "calls_expr (strip_expr e) = calls_expr e"
  "calls_exprs (strip_exprs es) = calls_exprs es"
  "calls_keywords (strip_keywords kws) = calls_keywords kws"
  by (induction e and es and kws rule: strip_expr_strip_exprs_strip_keywords.induct)
     (auto simp: Let_def calls_exprs_append calls_exprs_values)

lemma calls_strip_stmt:
  "calls_stmt (strip_stmt s) = calls_stmt s"
  "calls_stmts (strip_stmts ss) = calls_stmts ss"
  by (induction s and ss rule: strip_stmt_strip_stmts.induct) (auto simp: calls_strip)

lemma count_KeywordStripper:
  "count_function_calls (KeywordStripper tree) = count_function_calls tree"
  by (simp add: count_function_calls_def KeywordStripper_def calls_strip_stmt)

lemma run_checked_parsed:
  "ast_parse lib (cleaned_code lib code) = Inr tree \<Longrightarrow>
   run_checked lib mcp fuel code sid n w =
     (case build_safe_globals (tool_proxies mcp) sid (log_event ToolsListed w) of
        (Inl e, w1) \<Rightarrow> (Raised e, w1)
      | (Inr globals, w1) \<Rightarrow>
          execute_tree lib mcp fuel sid n (map fst (tool_proxies mcp)) globals tree w1)"
  by (simp add: run_checked_def Let_def split: prod.splits sum.splits)

lemma run_user_code_parsed:
  "ast_parse lib code = Inr counted \<Longrightarrow> count_function_calls counted \<le> MAX_FUNCTIONS \<Longrightarrow>
   run_user_code lib mcp fuel code sid w =
     (case run_checked lib mcp fuel code sid (count_function_calls counted) w of
        (Raised e, w') \<Rightarrow> (on_exception lib (Some (count_function_calls counted)) e, w')
      | other \<Rightarrow> other)"
  by (simp add: run_user_code_def Let_def)

lemma execute_tree_same_stripped:
  "KeywordStripper tree1 = KeywordStripper tree2 \<Longrightarrow>
   execute_tree lib mcp fuel sid n fs globals tree1 w = execute_tree lib mcp fuel sid n fs globals tree2 w"
  by (simp add: execute_tree_def rewrite_tree_def)

lemma run_user_code_same_stripped:
  assumes p1: "ast_parse lib code1 = Inr tree1" "ast_parse lib (cleaned_code lib code1) = Inr tree1"
    and p2: "ast_parse lib code2 = Inr tree2" "ast_parse lib (cleaned_code lib code2) = Inr tree2"
    and same: "KeywordStripper tree1 = KeywordStripper tree2"
  shows "run_user_code lib mcp fuel code1 sid w = run_user_code lib mcp fuel code2 sid w"
proof -
  from same have n: "count_function_calls tree1 = count_function_calls tree2"
    using count_KeywordStripper [of tree1] count_KeywordStripper [of tree2] by simp
  have "run_checked lib mcp fuel code1 sid (count_function_calls tree2) w
      = run_checked lib mcp fuel code2 sid (count_function_calls tree2) w"
    using p1(2) p2(2) execute_tree_same_stripped [OF same]
    by (simp add: run_checked_parsed split: prod.splits sum.splits)
  with p1(1) p2(1) n show ?thesis
    by (simp add: run_user_code_def Let_def)
qed

text \<open>
  Claim C7, as amended. \<^verbatim>\<open>KeywordStripper\<close> does not know the callee: for every call
  it appends the values of the keyword arguments to the positional arguments in the order
  in which the call writes them, and drops the names. Two scripts whose trees are equal
  after this rewrite, such as \<^verbatim>\<open>f(x=1, y=2)\<close> and \<^verbatim>\<open>f(1, 2)\<close>, have the same call
  count and \<^verbatim>\<open>run_user_code\<close> answers the same for both.
\<close>

theorem keyword_arguments_in_call_order:
  "strip_expr (Call f args kws) =
     Call (strip_expr f) (strip_exprs args @ map snd (strip_keywords kws)) []
   \<and> (ast_parse lib code1 = Inr tree1 \<and> ast_parse lib (cleaned_code lib code1) = Inr tree1
        \<and> ast_parse lib code2 = Inr tree2 \<and> ast_parse lib (cleaned_code lib code2) = Inr tree2
        \<and> KeywordStripper tree1 = KeywordStripper tree2
       \<longrightarrow> run_user_code lib mcp fuel code1 sid w = run_user_code lib mcp fuel code2 sid w)"
proof (intro conjI impI)
  show "strip_expr (Call f args kws) =
     Call (strip_expr f) (strip_exprs args @ map snd (strip_keywords kws)) []"
    by (cases kws) (auto simp: Let_def)
next
  assume "ast_parse lib code1 = Inr tree1 \<and> ast_parse lib (cleaned_code lib code1) = Inr tree1
        \<and> ast_parse lib code2 = Inr tree2 \<and> ast_parse lib (cleaned_code lib code2) = Inr tree2
        \<and> KeywordStripper tree1 = KeywordStripper tree2"
  then show "run_user_code lib mcp fuel code1 sid w = run_user_code lib mcp fuel code2 sid w"
    by (intro run_user_code_same_stripped [of lib code1 tree1 code2 tree2]) simp_all
qed

lemma cleaned_keyword_script: "cleaned_code example_lib keyword_script = keyword_script"
  by code_simp

lemma cleaned_positional_script: "cleaned_code example_lib positional_script = positional_script"
  by code_simp

lemma parse_keyword_script:
  "ast_parse example_lib keyword_script =
     Inr [Expr (Call (Name ''open_tab'') []
             [(Some ''url'', Constant (VStr ''u'')), (Some ''new'', Constant (VInt 1))])]"
  by code_simp

lemma parse_positional_script:
  "ast_parse example_lib positional_script =
     Inr [Expr (Call (Name ''open_tab'') [Constant (VStr ''u''), Constant (VInt 1)] [])]"
  by code_simp

text \<open>The scripts \<^verbatim>\<open>open_tab(url="u", new=1)\<close> and \<^verbatim>\<open>open_tab("u", 1)\<close>.\<close>

theorem keyword_arguments_in_call_order_witness:
  "strip_expr (Call (Name ''open_tab'') []
      [(Some ''url'', Constant (VStr ''u'')), (Some ''new'', Constant (VInt 1))])
    = Call (Name ''open_tab'') [Constant (VStr ''u''), Constant (VInt 1)] []
   \<and> run_user_code example_lib example_mcp 0 keyword_script ''s'' no_sessions
     = run_user_code example_lib example_mcp 0 positional_script ''s'' no_sessions"
  using keyword_arguments_in_call_order [of "Name ''open_tab''" "[]"
      "[(Some ''url'', Constant (VStr ''u'')), (Some ''new'', Constant (VInt 1))]"
      example_lib keyword_script
      "[Expr (Call (Name ''open_tab'') []
             [(Some ''url'', Constant (VStr ''u'')), (Some ''new'', Constant (VInt 1))])]"
      positional_script
      "[Expr (Call (Name ''open_tab'') [Constant (VStr ''u''), Constant (VInt 1)] [])]"
      example_mcp 0 "''s''" no_sessions]
  by (simp add: cleaned_keyword_script cleaned_positional_script parse_keyword_script
        parse_positional_script KeywordStripper_def)

text \<open>
  Claim C7 as stated fails: for a callee declared as \<^verbatim>\<open>f(x, y)\<close> the call
  \<^verbatim>\<open>f(y=2, x=1)\<close> becomes \<^verbatim>\<open>f(2, 1)\<close>, while the declaration order gives \<^verbatim>\<open>f(1, 2)\<close>.
\<close>

theorem keyword_arguments_declaration_order_counterexample:
  "strip_expr (Call (Name ''f'') []
       [(Some ''y'', Constant (VInt 2)), (Some ''x'', Constant (VInt 1))])
     = Call (Name ''f'') [Constant (VInt 2), Constant (VInt 1)] []
   \<and> declaration_order_args [''x'', ''y''] []
       [(Some ''y'', Constant (VInt 2)), (Some ''x'', Constant (VInt 1))]
     = [Constant (VInt 1), Constant (VInt 2)]
   \<and> strip_expr (Call (Name ''f'') []
       [(Some ''y'', Constant (VInt 2)), (Some ''x'', Constant (VInt 1))])
     \<noteq> Call (Name ''f'')
         (declaration_order_args [''x'', ''y''] []
            [(Some ''y'', Constant (VInt 2)), (Some ''x'', Constant (VInt 1))]) []"
  by (simp add: declaration_order_args_def List.map_filter_def)

section \<open>The complexity ceiling\<close>

lemma string_of_nat_20: "string_of_nat 20 = ''20''"
  by code_simp

lemma string_of_nat_21: "string_of_nat 21 = ''21''"
  by code_simp

text \<open>
  Claim C3. When the script parses and has more than 20 call expressions,
  \<^verbatim>\<open>run_user_code\<close> answers with the error envelope \<^verbatim>\<open>Too many functions (n > 20)\<close>
  whatever the fuel, and the world is as before: no tool is listed or invoked, no session
  file is read (which building the namespace would do) and none is written.
\<close>

theorem too_many_calls_rejected:
  assumes "ast_parse lib code = Inr tree"
    and "MAX_FUNCTIONS < count_function_calls tree"
  shows "run_user_code lib mcp fuel code sid w =
     (Ok (Failure (VStr (''Too many functions ('' @ string_of_nat (count_function_calls tree)
                         @ '' > 20)''))), w)"
  using assms by (simp add: run_user_code_def MAX_FUNCTIONS_def string_of_nat_20)

lemma parse_many_calls_script:
  "ast_parse example_lib many_calls_script = Inr (replicate 21 (Expr (Call (Name ''f'') [] [])))"
  by code_simp

lemma count_many_calls:
  "count_function_calls (replicate 21 (Expr (Call (Name ''f'') [] []))) = 21"
  by code_simp

text \<open>A script of 21 calls, for a session that has a record.\<close>

theorem too_many_calls_rejected_witness:
  "run_user_code example_lib example_mcp 0 many_calls_script ''s'' one_session =
     (Ok (Failure (VStr ''Too many functions (21 > 20)'')), one_session)"
  using too_many_calls_rejected [of example_lib many_calls_script
      "replicate 21 (Expr (Call (Name ''f'') [] []))" example_mcp 0 "''s''" one_session]
  by (simp only: parse_many_calls_script count_many_calls MAX_FUNCTIONS_def string_of_nat_21) simp

section \<open>Suspension and the timeout\<close>

lemma while_true_forever:
  "exec_stmt L M T n (While (Constant (VBool True)) [Pass]) s = (OutOfFuel, s)"
  by (induction n arbitrary: s) simp_all

lemma load_session_vars_ok:
  assumes "\<forall>msg. files w session_id \<noteq> Some (Garbled msg)"
    and "open_r_error w session_id = None"
  shows "\<exists>d. load_session_vars session_id w = (Inr d, log_event (FileRead session_id) w)"
proof (cases "files w session_id")
  case None
  with assms show ?thesis by (simp add: load_session_vars_def)
next
  case (Some f)
  with assms show ?thesis by (cases f) (simp_all add: load_session_vars_def)
qed

lemma build_safe_globals_ok:
  assumes "session_id \<noteq> [] \<longrightarrow>
             (\<forall>msg. files w session_id \<noteq> Some (Garbled msg)) \<and> open_r_error w session_id = None"
  shows "\<exists>globals. build_safe_globals fs session_id w =
           (Inr globals, if session_id \<noteq> [] then log_event (FileRead session_id) w else w)"
proof (cases "session_id = []")
  case True
  then show ?thesis by (simp add: build_safe_globals_def Let_def)
next
  case False
  with assms have "\<forall>msg. files w session_id \<noteq> Some (Garbled msg)"
    and "open_r_error w session_id = None" by simp_all
  then obtain d where "load_session_vars session_id w = (Inr d, log_event (FileRead session_id) w)"
    using load_session_vars_ok by blast
  with False show ?thesis by (simp add: build_safe_globals_def Let_def)
qed

lemma run_user_code_out_of_fuel:
  assumes "ast_parse lib code = Inr counted" "count_function_calls counted \<le> MAX_FUNCTIONS"
    and "fst (run_checked lib mcp fuel code sid (count_function_calls counted) w) = OutOfFuel"
  shows "fst (run_user_code lib mcp fuel code sid w) = OutOfFuel"
  using assms
  by (cases "run_checked lib mcp fuel code sid (count_function_calls counted) w")
     (simp add: run_user_code_parsed)

lemma parse_forever_script:
  "ast_parse example_lib forever_script = Inr [While (Constant (VBool True)) [Pass]]"
  by code_simp

lemma cleaned_forever_script: "cleaned_code example_lib forever_script = forever_script"
  by code_simp

lemma count_forever: "count_function_calls [While (Constant (VBool True)) [Pass]] = 0"
  by code_simp

lemma rewrite_forever:
  "rewrite_tree fs [While (Constant (VBool True)) [Pass]] = [While (Constant (VBool True)) [Pass]]"
  by (simp add: rewrite_tree_def normalize_returns_def AwaitTransformer_def KeywordStripper_def)

lemma execute_forever:
  "fst (execute_tree lib mcp fuel sid n fs globals [While (Constant (VBool True)) [Pass]] w)
     = OutOfFuel"
  by (simp add: execute_tree_def rewrite_forever while_true_forever)

lemma carry_Raised: "(carry r = Raised x) = (r = Raised x)"
  by (cases r) simp_all

lemma carry_OutOfFuel: "(carry r = OutOfFuel) = (r = OutOfFuel)"
  by (cases r) simp_all

lemma load_name_no_timeout: "load_name L x s = Raised e \<Longrightarrow> caught_as e \<noteq> TimeoutError"
  by (auto simp: load_name_def split: if_splits option.splits pyval.splits)

lemma call_value_history: "history (snd (call_value callee vs s)) = history s"
  by (auto simp: call_value_def split: pyval.splits list.splits option.splits)

lemma call_value_no_timeout:
  "fst (call_value callee vs s) = Raised x \<Longrightarrow> caught_as x \<noteq> TimeoutError"
  by (auto simp: call_value_def split: pyval.splits list.splits option.splits)

lemma eval_quiet:
  "\<not> suspends_expr e \<Longrightarrow>
     history (snd (eval_expr L M T e s)) = history s
     \<and> (\<forall>x. fst (eval_expr L M T e s) = Raised x \<longrightarrow> caught_as x \<noteq> TimeoutError)"
  "\<not> suspends_exprs es \<Longrightarrow>
     history (snd (eval_exprs L M T es s)) = history s
     \<and> (\<forall>x. fst (eval_exprs L M T es s) = Raised x \<longrightarrow> caught_as x \<noteq> TimeoutError)"
  "\<not> suspends_exprs ks \<Longrightarrow> \<not> suspends_exprs vs \<Longrightarrow>
     history (snd (eval_items L M T ks vs s)) = history s
     \<and> (\<forall>x. fst (eval_items L M T ks vs s) = Raised x \<longrightarrow> caught_as x \<noteq> TimeoutError)"
proof (induction L M T e s and L M T es s and L M T ks vs s
    rule: eval_expr_eval_exprs_eval_items.induct)
  case (2 L M T x s)
  then show ?case by (auto dest: load_name_no_timeout)
next
  case (3 L M T f args kws s)
  then show ?case
    by (auto simp: carry_Raised call_value_history split: prod.splits result.splits
        dest: call_value_no_timeout)
next
  case (11 L M T k ks v vs s)
  then show ?case
    by (auto simp: carry_Raised split: prod.splits result.splits pyval.splits)
qed (auto simp: carry_Raised split: prod.splits result.splits)


lemma store_targets_quiet:
  "store_targets ts v s = (r, s') \<Longrightarrow> history s' = history s \<and> (r = Ok () \<or> r = Beyond)"
  by (induction ts v s rule: store_targets.induct) auto

lemma exec_quiet:
  "\<not> suspends_stmt st \<Longrightarrow>
     history (snd (exec_stmt L M T n st s)) = history s
     \<and> (\<forall>x. fst (exec_stmt L M T n st s) = Raised x \<longrightarrow> caught_as x \<noteq> TimeoutError)"
  "\<not> suspends_block b \<Longrightarrow>
     history (snd (exec_block L M T n b s)) = history s
     \<and> (\<forall>x. fst (exec_block L M T n b s) = Raised x \<longrightarrow> caught_as x \<noteq> TimeoutError)"
proof (induction L M T n st s and L M T n b s rule: exec_stmt_exec_block.induct)
  case (1 L M T n t ts e s)
  then show ?case
    using eval_quiet(1) [of e L M T s]
    by (auto simp: carry_Raised split: prod.splits result.splits dest: store_targets_quiet)
next
  case (3 L M T n e s)
  then show ?case
    using eval_quiet(1) [of e L M T s]
    by (auto simp: carry_Raised split: prod.splits result.splits)
next
  case (4 L M T n e s)
  then show ?case
    using eval_quiet(1) [of e L M T s]
    by (auto simp: carry_Raised split: prod.splits result.splits)
next
  case (5 L M T n c a b s)
  then show ?case
    using eval_quiet(1) [of c L M T s]
    by (auto simp: carry_Raised split: prod.splits result.splits)
next
  case (7 L M T n c b s)
  then show ?case
    using eval_quiet(1) [of c L M T s]
    by (auto simp: carry_Raised split: prod.splits result.splits flow.splits)
next
  case (10 L M T n x xs s)
  then show ?case
    by (auto simp: carry_Raised split: prod.splits result.splits flow.splits)
qed simp_all

lemma execute_tree_out_of_fuel:
  assumes "fst (exec_block (assigned_names_block (rewrite_tree fs tree)) mcp (timeout_for n) fuel
             (rewrite_tree fs tree) (initial_state globals w)) = OutOfFuel"
  shows "fst (execute_tree lib mcp fuel sid n fs globals tree w) = OutOfFuel"
proof -
  from assms have "rewrite_tree fs tree \<noteq> []" by auto
  with assms show ?thesis
    by (cases "exec_block (assigned_names_block (rewrite_tree fs tree)) mcp (timeout_for n) fuel
             (rewrite_tree fs tree) (initial_state globals w)")
       (simp add: execute_tree_def Let_def)
qed

text \<open>
  Claim C2, as amended. The timeout of \<^verbatim>\<open>asyncio.wait_for\<close> reaches the task only where
  it is suspended. For a script whose rewritten tree has no \<^verbatim>\<open>Await\<close> node (no marked tool
  call, no use of \<^verbatim>\<open>parallel\<close>), whatever the fuel: the run of the body never raises the
  timeout and invokes no tool; and when the body does not finish for any amount of fuel,
  \<^verbatim>\<open>run_user_code\<close> does not answer for any amount of fuel: there is no envelope, and so
  no \<^verbatim>\<open>TimeoutError\<close> envelope.
\<close>

theorem timeout_needs_suspension_point:
  assumes parse: "ast_parse lib code = Inr counted"
    and small: "count_function_calls counted \<le> MAX_FUNCTIONS"
    and built: "build_safe_globals (tool_proxies mcp) sid (log_event ToolsListed w)
                  = (Inr globals, w1)"
    and cleaned: "ast_parse lib (cleaned_code lib code) = Inr tree"
    and body: "body = rewrite_tree (map fst (tool_proxies mcp)) tree"
    and quiet: "\<not> suspends_block body"
  shows "(\<forall>fuel x. fst (exec_block (assigned_names_block body) mcp
                        (timeout_for (count_function_calls counted)) fuel body
                        (initial_state globals w1)) = Raised x
            \<longrightarrow> caught_as x \<noteq> TimeoutError)
     \<and> (\<forall>fuel. history (snd (exec_block (assigned_names_block body) mcp
                        (timeout_for (count_function_calls counted)) fuel body
                        (initial_state globals w1))) = events w1)
     \<and> ((\<forall>fuel. fst (exec_block (assigned_names_block body) mcp
                        (timeout_for (count_function_calls counted)) fuel body
                        (initial_state globals w1)) = OutOfFuel)
          \<longrightarrow> (\<forall>fuel. fst (run_user_code lib mcp fuel code sid w) = OutOfFuel))"
proof (intro conjI allI impI)
  fix fuel x
  assume "fst (exec_block (assigned_names_block body) mcp
            (timeout_for (count_function_calls counted)) fuel body
            (initial_state globals w1)) = Raised x"
  with exec_quiet(2) [OF quiet] show "caught_as x \<noteq> TimeoutError" by blast
next
  fix fuel
  show "history (snd (exec_block (assigned_names_block body) mcp
            (timeout_for (count_function_calls counted)) fuel body
            (initial_state globals w1))) = events w1"
    using exec_quiet(2) [OF quiet] by (simp add: initial_state_def)
next
  fix fuel
  assume "\<forall>fuel. fst (exec_block (assigned_names_block body) mcp
            (timeout_for (count_function_calls counted)) fuel body
            (initial_state globals w1)) = OutOfFuel"
  then have "fst (execute_tree lib mcp fuel sid (count_function_calls counted)
                (map fst (tool_proxies mcp)) globals tree w1) = OutOfFuel"
    unfolding body by (intro execute_tree_out_of_fuel) simp
  with built cleaned
  have "fst (run_checked lib mcp fuel code sid (count_function_calls counted) w) = OutOfFuel"
    by (simp add: run_checked_parsed)
  with parse small show "fst (run_user_code lib mcp fuel code sid w) = OutOfFuel"
    by (rule run_user_code_out_of_fuel)
qed

text \<open>The script \<^verbatim>\<open>while True: pass\<close>, for a session that has a record.\<close>

theorem timeout_needs_suspension_point_witness:
  "\<not> suspends_block (rewrite_tree (map fst (tool_proxies example_mcp))
        [While (Constant (VBool True)) [Pass]])
   \<and> (\<forall>fuel. fst (run_user_code example_lib example_mcp fuel forever_script ''s'' one_session)
          = OutOfFuel)"
proof -
  let ?tree = "[While (Constant (VBool True)) [Pass]]"
  have quiet: "\<not> suspends_block (rewrite_tree (map fst (tool_proxies example_mcp)) ?tree)"
    by (simp add: rewrite_forever)
  obtain globals w1 where
    g: "build_safe_globals (tool_proxies example_mcp) ''s'' (log_event ToolsListed one_session)
          = (Inr globals, w1)"
    using build_safe_globals_ok [of "''s''" "log_event ToolsListed one_session"
        "tool_proxies example_mcp"]
    by (auto simp: one_session_def log_event_def example_open_s)
  have small: "count_function_calls ?tree \<le> MAX_FUNCTIONS"
    by (simp add: count_forever)
  have loops: "\<forall>fuel. fst (exec_block
      (assigned_names_block (rewrite_tree (map fst (tool_proxies example_mcp)) ?tree))
      example_mcp (timeout_for (count_function_calls ?tree)) fuel
      (rewrite_tree (map fst (tool_proxies example_mcp)) ?tree)
      (initial_state globals w1)) = OutOfFuel"
    by (simp add: rewrite_forever while_true_forever)
  from timeout_needs_suspension_point [OF parse_forever_script small g _ refl quiet] loops
  have "\<forall>fuel. fst (run_user_code example_lib example_mcp fuel forever_script ''s'' one_session)
          = OutOfFuel"
    by (simp add: cleaned_forever_script parse_forever_script)
  with quiet show ?thesis by simp
qed

text \<open>
  Claim C2 as stated fails: \<^verbatim>\<open>while True: pass\<close> has no suspension point and loops
  for ever (its timeout would be \<^verbatim>\<open>max(3, 0 * 50) = 3\<close> seconds), and \<^verbatim>\<open>run_user_code\<close>
  gives no answer however much fuel it gets.
\<close>

theorem nonsuspending_loop_counterexample:
  "\<forall>fuel. fst (run_user_code example_lib example_mcp fuel forever_script ''s'' no_sessions)
      = OutOfFuel"
proof
  fix fuel
  obtain globals w1 where
    g: "build_safe_globals (tool_proxies example_mcp) ''s'' (log_event ToolsListed no_sessions)
          = (Inr globals, w1)"
    using build_safe_globals_ok [of "''s''" "log_event ToolsListed no_sessions"
        "tool_proxies example_mcp"]
    by (auto simp: no_sessions_def log_event_def example_open_s)
  have "fst (run_checked example_lib example_mcp fuel forever_script ''s'' 0 no_sessions)
      = OutOfFuel"
    by (simp add: run_checked_parsed cleaned_forever_script parse_forever_script g
        execute_forever)
  then show "fst (run_user_code example_lib example_mcp fuel forever_script ''s'' no_sessions)
      = OutOfFuel"
    using run_user_code_out_of_fuel [OF parse_forever_script]
    by (simp add: count_forever)
qed

section \<open>Scripts that return a name\<close>

lemma build_safe_globals_events:
  "build_safe_globals fs sid w = (r, w') \<Longrightarrow> w' = w\<lparr>events := events w'\<rparr>"
  by (auto simp: build_safe_globals_def load_session_vars_def log_event_def Let_def
      split: if_splits prod.splits sum.splits option.splits session_file.splits)

lemma build_safe_globals_files:
  assumes "build_safe_globals fs sid w = (r, w')"
  shows "files w' = files w"
  using build_safe_globals_events [OF assms] by (cases w, cases w') simp

lemma build_safe_globals_file_system:
  assumes "build_safe_globals fs sid w = (r, w')"
  shows "makedirs_error w' = makedirs_error w" "open_r_error w' = open_r_error w"
    "open_w_error w' = open_w_error w"
  using build_safe_globals_events [OF assms] by (cases w, cases w', simp)+

lemma execute_tree_returned:
  assumes "exec_block (assigned_names_block (rewrite_tree fs tree)) mcp (timeout_for n) fuel
             (rewrite_tree fs tree) (initial_state globals w) = (Ok outcome, s)"
    and "rewrite_tree fs tree \<noteq> []"
  shows "execute_tree lib mcp fuel sid n fs globals tree w =
           collect_result lib sid (returned_value outcome) (w\<lparr>events := history s\<rparr>)"
  using assms by (simp add: execute_tree_def Let_def)

lemma run_user_code_returned:
  assumes parse: "ast_parse lib code = Inr counted"
    and small: "count_function_calls counted \<le> MAX_FUNCTIONS"
    and built: "build_safe_globals (tool_proxies mcp) sid (log_event ToolsListed w)
                  = (Inr globals, w1)"
    and cleaned: "ast_parse lib (cleaned_code lib code) = Inr tree"
    and body: "body = rewrite_tree (map fst (tool_proxies mcp)) tree"
    and nonempty: "body \<noteq> []"
    and runs: "exec_block (assigned_names_block body) mcp
                 (timeout_for (count_function_calls counted)) fuel body
                 (initial_state globals w1) = (Ok outcome, s)"
    and collected: "collect_result lib sid (returned_value outcome) (w1\<lparr>events := history s\<rparr>)
                 = (Ok envelope, w2)"
  shows "run_user_code lib mcp fuel code sid w = (Ok envelope, w2)"
proof -
  have "execute_tree lib mcp fuel sid (count_function_calls counted)
          (map fst (tool_proxies mcp)) globals tree w1 = (Ok envelope, w2)"
    using runs nonempty collected unfolding body by (simp add: execute_tree_returned)
  with built cleaned
  have "run_checked lib mcp fuel code sid (count_function_calls counted) w = (Ok envelope, w2)"
    by (simp add: run_checked_parsed)
  with parse small show ?thesis by (simp add: run_user_code_parsed)
qed

lemma strip_stmts_append: "strip_stmts (a @ b) = strip_stmts a @ strip_stmts b"
  by (induction a) simp_all

lemma await_stmts_append: "await_stmts fs (a @ b) = await_stmts fs a @ await_stmts fs b"
  by (induction a) simp_all

lemma length_strip_stmts: "length (strip_stmts a) = length a"
  by (induction a) simp_all

lemma length_await_stmts: "length (await_stmts fs a) = length a"
  by (induction a) simp_all

lemma exec_block_append:
  "exec_block L M T n (a @ b) s =
     (case exec_block L M T n a s of
        (Ok Next, s') \<Rightarrow> exec_block L M T n b s'
      | other \<Rightarrow> other)"
  by (induction a arbitrary: s) (auto split: prod.splits result.splits flow.splits)

lemma rewrite_tree_with_return:
  "rewrite_tree fs (pre @ Return (Some (Name x)) # rest) =
     map rewrite_return (await_stmts fs (strip_stmts pre))
     @ Return (Some (Dict [Constant (VStr x)] [Name x]))
     # map rewrite_return (await_stmts fs (strip_stmts rest))"
  by (simp add: rewrite_tree_def normalize_returns_def AwaitTransformer_def KeywordStripper_def
      strip_stmts_append await_stmts_append)

lemma take_rewritten:
  "take (length pre) (rewrite_tree fs (pre @ Return (Some (Name x)) # rest))
     = map rewrite_return (await_stmts fs (strip_stmts pre))"
  by (simp add: rewrite_tree_with_return length_strip_stmts length_await_stmts)

lemma eval_named_field:
  "load_name L x s = Ok v \<Longrightarrow>
   eval_expr L M T (Dict [Constant (VStr x)] [Name x]) s = (Ok (VDict [(x, v)]), s)"
  by simp

lemma attr_json_type: "is_json_type v \<Longrightarrow> attr v a = None"
  by (cases v) simp_all

lemma serialize_json_type: "is_json_type v \<Longrightarrow> serialize_result lib v = Inr v"
  by (simp add: serialize_result_def)

lemma save_and_succeed_ok:
  assumes "log_json_block lib m = None"
    and "makedirs_error w = None" "open_r_error w sid = None" "open_w_error w sid = None"
    and "files w sid = Some (Stored old) \<or> files w sid = None \<and> old = []"
    and "json_dump lib (dict_merge old m) = None"
  shows "save_and_succeed lib sid m w =
     (Ok (Success m), (log_event (FileWritten sid) (log_event (FileRead sid) w))
                \<lparr>files := (files w)(sid \<mapsto> Stored (dict_merge old m))\<rparr>)"
  using assms(1) save_written [OF assms(2-6)] by (simp add: save_and_succeed_def)

text \<open>
  Claim C1, as amended. Take a script of at most 20 calls whose repaired text (stripped,
  dedented, an odd number of triple quotes closed) parses to top-level statements \<open>pre\<close>,
  then \<^verbatim>\<open>return x\<close>, then \<open>rest\<close>, and let the namespace be built, which reads the session
  record. The return is rewritten into \<^verbatim>\<open>return {"x": x}\<close>. When the rewritten statements
  before the return run to their end and leave \<open>x\<close> with a value \<open>v\<close> of a JSON type, the
  returned mapping is \<^verbatim>\<open>{"x": v}\<close>. If \<open>v\<close> is a string that the error scan flags, the
  answer is the error envelope with that string and the session record is as before.
  Otherwise, when \<^verbatim>\<open>log_json_block\<close> returns on this mapping, the directory can be made,
  the session file can be opened for reading and for writing and \<^verbatim>\<open>json.dump\<close> writes the
  merged record, the answer is the success envelope with exactly \<^verbatim>\<open>{"x": v}\<close>, which is
  merged into the session record.
\<close>

theorem return_name_reports_named_field:
  assumes parse: "ast_parse lib code = Inr counted"
    and small: "count_function_calls counted \<le> MAX_FUNCTIONS"
    and built: "build_safe_globals (tool_proxies mcp) sid (log_event ToolsListed w)
                  = (Inr globals, w')"
    and cleaned: "ast_parse lib (cleaned_code lib code) = Inr (pre @ Return (Some (Name x)) # rest)"
    and body: "body = rewrite_tree (map fst (tool_proxies mcp))
                        (pre @ Return (Some (Name x)) # rest)"
    and runs: "exec_block (assigned_names_block body) mcp
                 (timeout_for (count_function_calls counted)) fuel (take (length pre) body)
                 (initial_state globals w') = (Ok Next, s)"
    and bound: "load_name (assigned_names_block body) x s = Ok v"
    and json: "is_json_type v"
    and logged: "scan_values [(x, v)] = None \<longrightarrow> log_json_block lib [(x, v)] = None"
    and stored: "files w sid = Some (Stored old) \<or> files w sid = None \<and> old = []"
    and opened: "scan_values [(x, v)] = None \<longrightarrow>
                   makedirs_error w = None \<and> open_r_error w sid = None
                   \<and> open_w_error w sid = None"
    and written: "scan_values [(x, v)] = None \<longrightarrow>
                    json_dump lib (dict_merge old [(x, v)]) = None"
  shows "fst (run_user_code lib mcp fuel code sid w)
           = (case scan_values [(x, v)] of
                None \<Rightarrow> Ok (Success [(x, v)])
              | Some flagged \<Rightarrow> Ok (Failure flagged))
     \<and> files (snd (run_user_code lib mcp fuel code sid w)) sid
           = (case scan_values [(x, v)] of
                None \<Rightarrow> Some (Stored (dict_merge old [(x, v)]))
              | Some flagged \<Rightarrow> files w sid)"
proof -
  let ?L = "assigned_names_block body"
  let ?T = "timeout_for (count_function_calls counted)"
  let ?fs = "map fst (tool_proxies mcp)"
  have shape: "body = take (length pre) body
      @ Return (Some (Dict [Constant (VStr x)] [Name x]))
      # map rewrite_return (await_stmts ?fs (strip_stmts rest))"
    unfolding body by (simp add: take_rewritten) (simp add: rewrite_tree_with_return)
  have "exec_block ?L mcp ?T fuel
          (take (length pre) body @ Return (Some (Dict [Constant (VStr x)] [Name x]))
           # map rewrite_return (await_stmts ?fs (strip_stmts rest))) (initial_state globals w')
        = (Ok (Ret (VDict [(x, v)])), s)"
    using runs bound by (simp add: exec_block_append)
  with shape have ex: "exec_block ?L mcp ?T fuel body (initial_state globals w')
        = (Ok (Ret (VDict [(x, v)])), s)"
    by simp
  from shape have nonempty: "body \<noteq> []" by auto
  let ?w = "w'\<lparr>events := history s\<rparr>"
  have f: "files ?w = files w"
    using build_safe_globals_files [OF built] by (simp add: log_event_def)
  have fs: "makedirs_error ?w = makedirs_error w" "open_r_error ?w = open_r_error w"
    "open_w_error ?w = open_w_error w"
    using build_safe_globals_file_system [OF built] by (simp_all add: log_event_def)
  have ser: "serialize_items lib [(x, v)] = Inr [(x, v)]"
    using json by (simp add: serialize_json_type)
  have quiet: "scan_outcomes [(x, v)] = None"
    using json by (simp add: attr_json_type)
  show ?thesis
  proof (cases "scan_values [(x, v)]")
    case None
    with stored f fs logged opened written have "save_and_succeed lib sid [(x, v)] ?w =
       (Ok (Success [(x, v)]), (log_event (FileWritten sid) (log_event (FileRead sid) ?w))
                  \<lparr>files := (files ?w)(sid \<mapsto> Stored (dict_merge old [(x, v)]))\<rparr>)"
      by (intro save_and_succeed_ok) simp_all
    with None ser quiet
    have "collect_result lib sid (returned_value (Ret (VDict [(x, v)]))) ?w =
       (Ok (Success [(x, v)]), (log_event (FileWritten sid) (log_event (FileRead sid) ?w))
                  \<lparr>files := (files ?w)(sid \<mapsto> Stored (dict_merge old [(x, v)]))\<rparr>)"
      by (simp add: collect_result_def)
    from run_user_code_returned [OF parse small built cleaned body nonempty ex this] None
    show ?thesis by simp
  next
    case (Some flagged)
    with ser have "collect_result lib sid (returned_value (Ret (VDict [(x, v)]))) ?w =
       (Ok (Failure flagged), ?w)"
      by (simp add: collect_result_def)
    from run_user_code_returned [OF parse small built cleaned body nonempty ex this] Some f
    show ?thesis by simp
  qed
qed

lemma parse_return_one_script:
  "ast_parse example_lib return_one_script
     = Inr [Assign (Name ''x'') [] (Constant (VInt 1)), Return (Some (Name ''x''))]"
  by code_simp

lemma cleaned_return_one_script: "cleaned_code example_lib return_one_script = return_one_script"
  by code_simp

lemma rewrite_return_one:
  "rewrite_tree fs [Assign (Name ''x'') [] (Constant (VInt 1)), Return (Some (Name ''x''))]
     = [Assign (Name ''x'') [] (Constant (VInt 1)),
        Return (Some (Dict [Constant (VStr ''x'')] [Name ''x'']))]"
  by (simp add: rewrite_tree_def normalize_returns_def AwaitTransformer_def KeywordStripper_def)

text \<open>The script \<^verbatim>\<open>x = 1\<close>, \<^verbatim>\<open>return x\<close>.\<close>

theorem return_name_reports_named_field_witness:
  "fst (run_user_code example_lib example_mcp 0 return_one_script ''s'' no_sessions)
     = Ok (Success [(''x'', VInt 1)])
   \<and> files (snd (run_user_code example_lib example_mcp 0 return_one_script ''s'' no_sessions)) ''s''
     = Some (Stored [(''x'', VInt 1)])"
proof -
  obtain globals w1 where
    g: "build_safe_globals (tool_proxies example_mcp) ''s'' (log_event ToolsListed no_sessions)
          = (Inr globals, w1)"
    using build_safe_globals_ok [of "''s''" "log_event ToolsListed no_sessions"
        "tool_proxies example_mcp"]
    by (auto simp: no_sessions_def log_event_def example_open_s)
  have small: "count_function_calls
      [Assign (Name ''x'') [] (Constant (VInt 1)), Return (Some (Name ''x''))] \<le> MAX_FUNCTIONS"
    by (simp add: count_function_calls_def)
  show ?thesis
    using return_name_reports_named_field [where lib = example_lib and mcp = example_mcp
        and code = return_one_script and sid = "''s''" and w = no_sessions and fuel = 0
        and counted = "[Assign (Name ''x'') [] (Constant (VInt 1)), Return (Some (Name ''x''))]"
        and pre = "[Assign (Name ''x'') [] (Constant (VInt 1))]" and x = "''x''" and rest = "[]"
        and globals = globals and w' = w1 and v = "VInt 1" and old = "[]"
        and s = "(initial_state globals w1)\<lparr>local_vars := [(''x'', VInt 1)]\<rparr>"
        and body = "[Assign (Name ''x'') [] (Constant (VInt 1)),
                     Return (Some (Dict [Constant (VStr ''x'')] [Name ''x'']))]"]
      g small
    by (simp add: parse_return_one_script cleaned_return_one_script rewrite_return_one
        load_name_def initial_state_def no_sessions_fields example_lib_fields
        digits_error_small example_open_s)
qed

text \<open>
  Claim C1 as stated fails: the script \<^verbatim>\<open>x = "Payment failed"\<close>, \<^verbatim>\<open>return x\<close> assigns a
  value to \<^verbatim>\<open>x\<close> and returns it, and the answer is an error envelope; nothing is saved.
\<close>

theorem flagged_value_counterexample:
  "ast_parse example_lib flagged_script
     = Inr [Assign (Name ''x'') [] (Constant (VStr ''Payment failed'')),
            Return (Some (Name ''x''))]
   \<and> fst (run_user_code example_lib example_mcp 0 flagged_script ''s'' no_sessions)
     = Ok (Failure (VStr ''Payment failed''))
   \<and> files (snd (run_user_code example_lib example_mcp 0 flagged_script ''s'' no_sessions)) ''s''
     = None"
  by code_simp

section \<open>Scripts that leave a result variable\<close>

lemma strip_stmt_Return: "strip_stmt (Return r) = Return (map_option strip_expr r)"
  by (cases r) simp_all

lemma await_stmt_Return: "await_stmt fs (Return r) = Return (map_option (await_expr fs) r)"
  by (cases r) simp_all

lemma is_Return_strip: "is_Return (strip_stmt st) = is_Return st"
  by (cases st) (simp_all add: strip_stmt_Return)

lemma is_Return_await: "is_Return (await_stmt fs st) = is_Return st"
  by (cases st) (simp_all add: await_stmt_Return)

lemma list_ex_is_Return_strip: "list_ex is_Return (strip_stmts t) = list_ex is_Return t"
  by (induction t) (simp_all add: is_Return_strip)

lemma list_ex_is_Return_await: "list_ex is_Return (await_stmts fs t) = list_ex is_Return t"
  by (induction t) (simp_all add: is_Return_await)

lemma strip_expr_Name: "(strip_expr e = Name x) = (e = Name x)"
  by (cases e) (auto simp: Let_def)

lemma await_expr_Name: "(await_expr fs e = Name x) = (e = Name x)"
  by (cases e) (auto simp: Let_def split: expr.splits)

lemma result_vars_Cons:
  "result_vars (st # t) =
     (case st of Assign (Name x) ts e \<Rightarrow> x # result_vars t | _ \<Rightarrow> result_vars t)"
  by (cases "(st # t)" rule: result_vars.cases) auto

lemma result_vars_strip: "result_vars (strip_stmts t) = result_vars t"
proof (induction t)
  case Nil
  then show ?case by simp
next
  case (Cons st t)
  show ?case
  proof (cases st)
    case (Assign a ts e)
    with Cons show ?thesis
      by (cases a) (auto simp: result_vars_Cons Let_def)
  qed (use Cons in \<open>simp_all add: result_vars_Cons strip_stmt_Return await_stmt_Return\<close>)
qed

lemma result_vars_await: "result_vars (await_stmts fs t) = result_vars t"
proof (induction t)
  case Nil
  then show ?case by simp
next
  case (Cons st t)
  show ?case
  proof (cases st)
    case (Assign a ts e)
    with Cons show ?thesis
      by (cases a) (auto simp: result_vars_Cons Let_def split: expr.splits)
  qed (use Cons in \<open>simp_all add: result_vars_Cons strip_stmt_Return await_stmt_Return\<close>)
qed

lemma map_rewrite_return_id: "\<not> list_ex is_Return t \<Longrightarrow> map rewrite_return t = t"
proof (induction t)
  case Nil
  then show ?case by simp
next
  case (Cons st t)
  then show ?case by (cases st) simp_all
qed

lemma rewrite_tree_without_return:
  assumes "\<not> list_ex is_Return tree" "''result'' \<in> set (result_vars tree)"
  shows "rewrite_tree fs tree =
           AwaitTransformer fs (KeywordStripper tree) @ [Return (Some (Name ''result''))]"
  using assms
  by (simp add: rewrite_tree_def normalize_returns_def AwaitTransformer_def KeywordStripper_def
      list_ex_is_Return_strip list_ex_is_Return_await result_vars_strip result_vars_await
      map_rewrite_return_id)

lemma assign_in_result_vars: "Assign (Name x) ts e \<in> set t \<Longrightarrow> x \<in> set (result_vars t)"
  by (induction t) (auto simp: result_vars_Cons split: stmt.splits expr.splits)

lemma result_vars_assigned: "x \<in> set (result_vars t) \<Longrightarrow> x \<in> set (assigned_names_block t)"
  by (induction t) (auto simp: result_vars_Cons split: stmt.splits expr.splits)

lemma assigned_names_block_append:
  "assigned_names_block (a @ b) = assigned_names_block a @ assigned_names_block b"
  by (induction a) simp_all

text \<open>
  Claim C9, as amended. Take a script of at most 20 calls whose repaired text (stripped,
  dedented, an odd number of triple quotes closed) parses to top-level statements with no
  \<^verbatim>\<open>return\<close> among them and with an assignment whose first target is \<^verbatim>\<open>result\<close> (as in
  \<^verbatim>\<open>result = 5\<close>), and let the namespace be built, which reads the session record. The
  rewritten body is the rewritten statements followed by \<^verbatim>\<open>return result\<close>. When these
  statements run to their end and leave \<^verbatim>\<open>result\<close> with the value 5,
  \<^verbatim>\<open>log_json_block\<close> returns on \<^verbatim>\<open>{"result": 5}\<close>, the directory can be made, the session
  file can be opened for reading and for writing and \<^verbatim>\<open>json.dump\<close> writes the merged
  record, the answer is the success envelope with exactly \<^verbatim>\<open>{"result": 5}\<close>, which is
  merged into the session record.
\<close>

theorem result_variable_is_returned:
  assumes parse: "ast_parse lib code = Inr counted"
    and small: "count_function_calls counted \<le> MAX_FUNCTIONS"
    and built: "build_safe_globals (tool_proxies mcp) sid (log_event ToolsListed w)
                  = (Inr globals, w')"
    and cleaned: "ast_parse lib (cleaned_code lib code) = Inr tree"
    and no_return: "\<not> list_ex is_Return tree"
    and assigned: "Assign (Name ''result'') ts e \<in> set tree"
    and body: "body = rewrite_tree (map fst (tool_proxies mcp)) tree"
    and runs: "exec_block (assigned_names_block body) mcp
                 (timeout_for (count_function_calls counted)) fuel (butlast body)
                 (initial_state globals w') = (Ok Next, s)"
    and five: "map_of (local_vars s) ''result'' = Some (VInt 5)"
    and logged: "log_json_block lib [(''result'', VInt 5)] = None"
    and stored: "files w sid = Some (Stored old) \<or> files w sid = None \<and> old = []"
    and opened: "makedirs_error w = None" "open_r_error w sid = None" "open_w_error w sid = None"
    and written: "json_dump lib (dict_merge old [(''result'', VInt 5)]) = None"
  shows "body = AwaitTransformer (map fst (tool_proxies mcp)) (KeywordStripper tree)
                @ [Return (Some (Name ''result''))]
     \<and> fst (run_user_code lib mcp fuel code sid w) = Ok (Success [(''result'', VInt 5)])
     \<and> files (snd (run_user_code lib mcp fuel code sid w)) sid
         = Some (Stored (dict_merge old [(''result'', VInt 5)]))"
proof -
  let ?L = "assigned_names_block body"
  let ?T = "timeout_for (count_function_calls counted)"
  let ?fs = "map fst (tool_proxies mcp)"
  let ?t = "AwaitTransformer ?fs (KeywordStripper tree)"
  from assigned have rv: "''result'' \<in> set (result_vars tree)"
    by (rule assign_in_result_vars)
  with no_return have shape: "body = ?t @ [Return (Some (Name ''result''))]"
    unfolding body by (rule rewrite_tree_without_return)
  from rv have "''result'' \<in> set (result_vars ?t)"
    by (simp add: AwaitTransformer_def KeywordStripper_def result_vars_strip result_vars_await)
  then have "''result'' \<in> set ?L"
    unfolding shape by (simp add: assigned_names_block_append result_vars_assigned)
  with five have bound: "load_name ?L ''result'' s = Ok (VInt 5)"
    by (simp add: load_name_def)
  from shape have bl: "butlast body = ?t" by simp
  have "exec_block ?L mcp ?T fuel (butlast body @ [Return (Some (Name ''result''))])
          (initial_state globals w') = (Ok (Ret (VInt 5)), s)"
    using runs bound by (simp add: exec_block_append)
  with shape bl have ex: "exec_block ?L mcp ?T fuel body (initial_state globals w')
        = (Ok (Ret (VInt 5)), s)"
    by simp
  from shape have nonempty: "body \<noteq> []" by auto
  let ?w = "w'\<lparr>events := history s\<rparr>"
  have f: "files ?w = files w"
    using build_safe_globals_files [OF built] by (simp add: log_event_def)
  have fs: "makedirs_error ?w = makedirs_error w" "open_r_error ?w = open_r_error w"
    "open_w_error ?w = open_w_error w"
    using build_safe_globals_file_system [OF built] by (simp_all add: log_event_def)
  from stored f fs logged opened written
  have "save_and_succeed lib sid [(''result'', VInt 5)] ?w =
     (Ok (Success [(''result'', VInt 5)]),
      (log_event (FileWritten sid) (log_event (FileRead sid) ?w))
        \<lparr>files := (files ?w)(sid \<mapsto> Stored (dict_merge old [(''result'', VInt 5)]))\<rparr>)"
    by (intro save_and_succeed_ok) simp_all
  then have "collect_result lib sid (returned_value (Ret (VInt 5))) ?w =
     (Ok (Success [(''result'', VInt 5)]),
      (log_event (FileWritten sid) (log_event (FileRead sid) ?w))
        \<lparr>files := (files ?w)(sid \<mapsto> Stored (dict_merge old [(''result'', VInt 5)]))\<rparr>)"
    by (simp add: collect_result_def serialize_json_type)
  from run_user_code_returned [OF parse small built cleaned body nonempty ex this] shape
  show ?thesis by simp
qed

lemma parse_result_script:
  "ast_parse example_lib result_script = Inr [Assign (Name ''result'') [] (Constant (VInt 5))]"
  by code_simp

lemma cleaned_result_script: "cleaned_code example_lib result_script = result_script"
  by code_simp

lemma rewrite_result:
  "rewrite_tree fs [Assign (Name ''result'') [] (Constant (VInt 5))]
     = [Assign (Name ''result'') [] (Constant (VInt 5)), Return (Some (Name ''result''))]"
  by (simp add: rewrite_tree_def normalize_returns_def AwaitTransformer_def KeywordStripper_def)

text \<open>The script \<^verbatim>\<open>result = 5\<close>, for a session that has the record \<^verbatim>\<open>{"a": 1}\<close>.\<close>

theorem result_variable_is_returned_witness:
  "rewrite_tree (map fst (tool_proxies example_mcp))
       [Assign (Name ''result'') [] (Constant (VInt 5))]
     = [Assign (Name ''result'') [] (Constant (VInt 5)), Return (Some (Name ''result''))]
   \<and> fst (run_user_code example_lib example_mcp 0 result_script ''s'' one_session)
     = Ok (Success [(''result'', VInt 5)])
   \<and> files (snd (run_user_code example_lib example_mcp 0 result_script ''s'' one_session)) ''s''
     = Some (Stored [(''a'', VInt 1), (''result'', VInt 5)])"
proof -
  obtain globals w1 where
    g: "build_safe_globals (tool_proxies example_mcp) ''s'' (log_event ToolsListed one_session)
          = (Inr globals, w1)"
    using build_safe_globals_ok [of "''s''" "log_event ToolsListed one_session"
        "tool_proxies example_mcp"]
    by (auto simp: one_session_def log_event_def example_open_s)
  have small: "count_function_calls [Assign (Name ''result'') [] (Constant (VInt 5))]
      \<le> MAX_FUNCTIONS"
    by (simp add: count_function_calls_def)
  show ?thesis
    using result_variable_is_returned [where lib = example_lib and mcp = example_mcp
        and code = result_script and sid = "''s''" and w = one_session and fuel = 0
        and counted = "[Assign (Name ''result'') [] (Constant (VInt 5))]"
        and tree = "[Assign (Name ''result'') [] (Constant (VInt 5))]"
        and ts = "[]" and e = "Constant (VInt 5)"
        and globals = globals and w' = w1 and old = "[(''a'', VInt 1)]"
        and s = "(initial_state globals w1)\<lparr>local_vars := [(''result'', VInt 5)]\<rparr>"
        and body = "[Assign (Name ''result'') [] (Constant (VInt 5)),
                     Return (Some (Name ''result''))]"]
      g small
    by (simp add: parse_result_script cleaned_result_script rewrite_result
        initial_state_def one_session_fields AwaitTransformer_def KeywordStripper_def
        example_lib_fields digits_error_small example_open_s)
qed

text \<open>
  Claim C9 as stated fails: the script \<^verbatim>\<open>result = 5  # """\<close> parses, has no \<^verbatim>\<open>return\<close> and
  assigns 5 to \<^verbatim>\<open>result\<close>. Its comment holds one triple quote, so the repair appends a
  closing one, the repaired text does not parse, and the answer is the error envelope of
  the \<^verbatim>\<open>SyntaxError\<close>.
\<close>

theorem repaired_comment_counterexample:
  "ast_parse example_lib comment_script = Inr [Assign (Name ''result'') [] (Constant (VInt 5))]
   \<and> cleaned_code example_lib comment_script = comment_script @ [CHR 0x0A, dq, dq, dq]
   \<and> fst (run_user_code example_lib example_mcp 0 comment_script ''s'' no_sessions)
       = Ok (Failure (VStr (''SyntaxError: unterminated triple-quoted string literal ''
                            @ ''(detected at line 2) (<unknown>, line 2)'')))
   \<and> files (snd (run_user_code example_lib example_mcp 0 comment_script ''s'' no_sessions)) ''s''
       = None"
  by code_simp

text \<open>
  The hypotheses on the file system carry weight as well: for the session id \<^verbatim>\<open>a/b\<close> the
  script \<^verbatim>\<open>result = 5\<close> runs, and the save cannot open its file for writing, for want of
  the directory \<^verbatim>\<open>a\<close>. The answer is the error envelope of the \<^verbatim>\<open>FileNotFoundError\<close>.
\<close>

lemma missing_directory_instance:
  "fst (run_user_code example_lib example_mcp 0 result_script ''a/b'' no_sessions)
     = Ok (Failure (VStr (''FileNotFoundError: [Errno 2] No such file or directory: ''
                          @ [CHR 0x27] @ ''action/sandbox_state/a/b.json'' @ [CHR 0x27])))
   \<and> files (snd (run_user_code example_lib example_mcp 0 result_script ''a/b'' no_sessions))
         ''a/b''
       = None"
  by code_simp

section \<open>Failed tool outcomes\<close>

lemma serialize_items_append:
  "serialize_items lib (a @ b) =
     (case serialize_items lib a of
        Inl e \<Rightarrow> Inl e
      | Inr a' \<Rightarrow>
          (case serialize_items lib b of Inl e \<Rightarrow> Inl e | Inr b' \<Rightarrow> Inr (a' @ b')))"
  by (induction a) (auto split: sum.splits)

lemma scan_values_Cons:
  "scan_values ((k, v) # d) =
     (case v of VStr t \<Rightarrow> if error_signal t then Some (VStr t) else scan_values d
      | _ \<Rightarrow> scan_values d)"
  by (cases v) simp_all

lemma scan_values_append:
  "scan_values (a @ b) = (case scan_values a of Some m \<Rightarrow> Some m | None \<Rightarrow> scan_values b)"
  by (induction a) (auto simp: scan_values_Cons split: pyval.splits)

lemma startswith_append: "startswith (p @ r) p"
  by (induction p) simp_all

lemma lower_append: "lower (a @ b) = lower a @ lower b"
  by (simp add: lower_def)

lemma lower_error_prefix: "lower ''Error executing tool'' = ''error executing tool''"
  by code_simp

lemma error_signal_tool_error: "error_signal (''Error executing tool: '' @ t)"
proof -
  have "''Error executing tool: '' @ t = ''Error executing tool'' @ ('': '' @ t)" by simp
  then have "lower (''Error executing tool: '' @ t) = ''error executing tool'' @ lower ('': '' @ t)"
    by (simp only: lower_append lower_error_prefix)
  then show ?thesis
    unfolding error_signal_def using startswith_append [of "''error executing tool''"] by simp
qed

lemma serialize_failed_outcome:
  assumes "map_of attrs ''success'' = Some success" "\<not> truthy success"
    "map_of attrs ''content'' = Some content" "map_of attrs ''error'' = Some error"
  shows "serialize_result lib (VObj c attrs)
           = Inr (VStr (''Error executing tool: '' @ format_value lib error))"
  using assms by (simp add: serialize_result_def)

text \<open>
  Claim C4, as amended. When the script returns a mapping that has, under some key, an
  object with the attributes \<^verbatim>\<open>success\<close>, \<^verbatim>\<open>content\<close> and \<^verbatim>\<open>error\<close> whose \<^verbatim>\<open>success\<close> is
  false, and the other values serialize, the answer is an error envelope and nothing is
  saved. The scan of the serialized values comes first and decides the message: it is
  the first flagged string among the values before the outcome, and otherwise the
  serialized outcome, \<^verbatim>\<open>Error executing tool: \<close> followed by the \<^verbatim>\<open>error\<close> attribute. The
  check of the \<^verbatim>\<open>success\<close> attributes comes after this scan and is not reached.
\<close>

theorem failed_outcome_reported_by_value_scan:
  assumes parse: "ast_parse lib code = Inr counted"
    and small: "count_function_calls counted \<le> MAX_FUNCTIONS"
    and built: "build_safe_globals (tool_proxies mcp) sid (log_event ToolsListed w)
                  = (Inr globals, w')"
    and cleaned: "ast_parse lib (cleaned_code lib code) = Inr tree"
    and body: "body = rewrite_tree (map fst (tool_proxies mcp)) tree"
    and runs: "exec_block (assigned_names_block body) mcp
                 (timeout_for (count_function_calls counted)) fuel body
                 (initial_state globals w')
               = (Ok (Ret (VDict (before @ (k, VObj c attrs) # after))), s)"
    and outcome: "map_of attrs ''success'' = Some success" "\<not> truthy success"
      "map_of attrs ''content'' = Some content" "map_of attrs ''error'' = Some error"
    and others: "serialize_items lib before = Inr before'"
      "serialize_items lib after = Inr after'"
  shows "run_user_code lib mcp fuel code sid w =
     (Ok (Failure (case scan_values before' of
                     Some flagged \<Rightarrow> flagged
                   | None \<Rightarrow> VStr (''Error executing tool: '' @ format_value lib error))),
      w'\<lparr>events := history s\<rparr>)"
proof -
  define msg where "msg = ''Error executing tool: '' @ format_value lib error"
  let ?d = "before @ (k, VObj c attrs) # after"
  from runs have nonempty: "body \<noteq> []" by auto
  have flag: "error_signal msg"
    unfolding msg_def by (rule error_signal_tool_error)
  have "serialize_result lib (VObj c attrs) = Inr (VStr msg)"
    unfolding msg_def using outcome by (rule serialize_failed_outcome)
  with others have ser: "serialize_items lib ?d = Inr (before' @ (k, VStr msg) # after')"
    by (simp add: serialize_items_append)
  from flag have scan: "scan_values (before' @ (k, VStr msg) # after')
      = Some (case scan_values before' of Some flagged \<Rightarrow> flagged | None \<Rightarrow> VStr msg)"
    by (simp add: scan_values_append split: option.splits)
  have "collect_result lib sid (returned_value (Ret (VDict ?d))) (w'\<lparr>events := history s\<rparr>)
      = (Ok (Failure (case scan_values before' of Some flagged \<Rightarrow> flagged
                      | None \<Rightarrow> VStr msg)), w'\<lparr>events := history s\<rparr>)"
    by (simp add: collect_result_def ser scan)
  from run_user_code_returned [OF parse small built cleaned body nonempty runs this]
  show ?thesis unfolding msg_def .
qed

lemma parse_tool_script:
  "ast_parse example_lib tool_script
     = Inr [Assign (Name ''r'') [] (Call (Name ''open_tab'') [Constant (VStr ''u'')] []),
            Return (Some (Name ''r''))]"
  by code_simp

lemma cleaned_tool_script: "cleaned_code example_lib tool_script = tool_script"
  by code_simp

text \<open>The script \<^verbatim>\<open>r = open_tab("u")\<close>, \<^verbatim>\<open>return r\<close>, for a session that has a record.\<close>

theorem failed_outcome_reported_by_value_scan_witness:
  "fst (run_user_code example_lib example_mcp 0 tool_script ''s'' one_session)
     = Ok (Failure (VStr ''Error executing tool: boom''))
   \<and> files (snd (run_user_code example_lib example_mcp 0 tool_script ''s'' one_session))
     = files one_session"
proof -
  let ?tree = "[Assign (Name ''r'') [] (Call (Name ''open_tab'') [Constant (VStr ''u'')] []),
                Return (Some (Name ''r''))]"
  let ?b = "build_safe_globals (tool_proxies example_mcp) ''s''
              (log_event ToolsListed one_session)"
  let ?body = "rewrite_tree (map fst (tool_proxies example_mcp)) ?tree"
  let ?s = "\<lparr>local_vars = [(''r'', failed_outcome)], sandbox = projr (fst ?b),
             history = [ToolsListed, FileRead ''s'', Invoked ''open_tab'' [VStr ''u'']]\<rparr>"
  have g: "?b = (Inr (projr (fst ?b)), snd ?b)"
    using build_safe_globals_ok [of "''s''" "log_event ToolsListed one_session"
        "tool_proxies example_mcp"]
    by (auto simp: one_session_def log_event_def example_open_s)
  have small: "count_function_calls ?tree \<le> MAX_FUNCTIONS"
    by code_simp
  have runs: "exec_block (assigned_names_block ?body) example_mcp
                (timeout_for (count_function_calls ?tree)) 0 ?body
                (initial_state (projr (fst ?b)) (snd ?b))
              = (Ok (Ret (VDict ([] @ (''r'', VObj ''ActionResultOutput''
                     [(''success'', VBool False), (''content'', VNone),
                      (''error'', VStr ''boom'')]) # []))), ?s)"
    by code_simp
  have f: "files (snd ?b) = files one_session"
    using build_safe_globals_files [OF g] by (simp add: log_event_def)
  from failed_outcome_reported_by_value_scan [OF parse_tool_script small g _ refl runs,
      of "VBool False" VNone "VStr ''boom''" "[]" "[]"] f
  show ?thesis
    by (simp add: cleaned_tool_script parse_tool_script format_value_def)
qed

text \<open>
  Claim C4 as stated fails: the script \<^verbatim>\<open>r = open_tab("u")\<close>, \<^verbatim>\<open>return r\<close> returns a
  mapping with an outcome whose \<^verbatim>\<open>success\<close> is false and whose \<^verbatim>\<open>error\<close> is \<^verbatim>\<open>boom\<close>;
  the message of the error envelope is not \<^verbatim>\<open>boom\<close>.
\<close>

theorem failed_outcome_counterexample:
  "fst (run_user_code example_lib example_mcp 0 tool_script ''s'' no_sessions)
     = Ok (Failure (VStr ''Error executing tool: boom''))
   \<and> fst (run_user_code example_lib example_mcp 0 tool_script ''s'' no_sessions)
     \<noteq> Ok (Failure (VStr ''boom''))
   \<and> events (snd (run_user_code example_lib example_mcp 0 tool_script ''s'' no_sessions))
     = [ToolsListed, FileRead ''s'', Invoked ''open_tab'' [VStr ''u'']]"
  by code_simp

section \<open>Error envelopes and the session record\<close>

text \<open>
  \<^verbatim>\<open>save_session_vars\<close> is the only writer of the session files, and \<^verbatim>\<open>run_user_code\<close>
  calls it in one place, as the last step before the success envelope, right after
  \<^verbatim>\<open>log_json_block\<close> has returned on the result mapping. An exception of the save is
  caught like any other. It leaves the file as it was, unless it is the exception of
  \<^verbatim>\<open>json.dump\<close>: by then the file has been opened for writing and holds a part of the text.
\<close>

lemma save_session_vars_raised:
  assumes "save_session_vars lib sid rv w = (Inl e, w')"
  shows "files w' = files w
    \<or> (\<exists>old. (files w sid = Some (Stored old) \<or> files w sid = None \<and> old = [])
          \<and> json_dump lib (dict_merge old rv) = Some e
          \<and> files w' = (files w)(sid \<mapsto> Garbled (truncated_json_message lib (dict_merge old rv))))"
  using assms
  by (auto simp: save_session_vars_def log_event_def Let_def
      split: option.splits session_file.splits)

lemma save_and_succeed_shape:
  "save_and_succeed lib sid rv w = (r, w') \<Longrightarrow> (\<exists>x. r = Ok (Success x)) \<or> (\<exists>e. r = Raised e)"
  by (auto simp: save_and_succeed_def split: option.splits prod.splits sum.splits)

lemma save_and_succeed_raised:
  assumes "save_and_succeed lib sid rv w = (Raised e, w')"
  shows "files w' = files w
    \<or> (\<exists>old. log_json_block lib rv = None
          \<and> (files w sid = Some (Stored old) \<or> files w sid = None \<and> old = [])
          \<and> json_dump lib (dict_merge old rv) = Some e
          \<and> files w' = (files w)(sid \<mapsto> Garbled (truncated_json_message lib (dict_merge old rv))))"
proof (cases "log_json_block lib rv")
  case (Some e')
  with assms show ?thesis by (simp add: save_and_succeed_def)
next
  case None
  with assms have "save_session_vars lib sid rv w = (Inl e, w')"
    by (auto simp: save_and_succeed_def split: prod.splits sum.splits)
  from save_session_vars_raised [OF this] None show ?thesis by auto
qed

lemma collect_result_failure:
  "collect_result lib sid returned w = (Ok (Failure v), w') \<Longrightarrow> w' = w"
  using save_and_succeed_shape
  by (fastforce simp: collect_result_def split: pyval.splits sum.splits option.splits)

lemma collect_result_raised:
  assumes "collect_result lib sid returned w = (Raised e, w')"
  shows "files w' = files w
    \<or> (\<exists>rv old. log_json_block lib rv = None
          \<and> (files w sid = Some (Stored old) \<or> files w sid = None \<and> old = [])
          \<and> json_dump lib (dict_merge old rv) = Some e
          \<and> files w' = (files w)(sid \<mapsto> Garbled (truncated_json_message lib (dict_merge old rv))))"
  using assms save_and_succeed_raised [of lib sid _ w e w']
  by (auto simp: collect_result_def split: pyval.splits sum.splits option.splits)

lemma carry_Failure: "carry r \<noteq> Ok (Failure v)"
  by (cases r) simp_all

lemma execute_tree_failure:
  assumes "execute_tree lib mcp fuel sid k fs globals tree w = (Ok (Failure v), w')"
  shows "files w' = files w"
proof (cases "rewrite_tree fs tree = []")
  case True
  with assms show ?thesis by (simp add: execute_tree_def)
next
  case False
  obtain rx s where e: "exec_block (assigned_names_block (rewrite_tree fs tree)) mcp
      (timeout_for k) fuel (rewrite_tree fs tree) (initial_state globals w) = (rx, s)"
    by (cases "exec_block (assigned_names_block (rewrite_tree fs tree)) mcp
      (timeout_for k) fuel (rewrite_tree fs tree) (initial_state globals w)")
  show ?thesis
  proof (cases rx)
    case (Ok outcome)
    with assms e False
    have "collect_result lib sid (returned_value outcome) (w\<lparr>events := history s\<rparr>)
            = (Ok (Failure v), w')"
      by (simp add: execute_tree_def Let_def)
    from collect_result_failure [OF this] show ?thesis by simp
  qed (use assms e False in \<open>auto simp: execute_tree_def Let_def\<close>)
qed

lemma execute_tree_raised:
  assumes "execute_tree lib mcp fuel sid k fs globals tree w = (Raised e, w')"
  shows "files w' = files w
    \<or> (\<exists>rv old. log_json_block lib rv = None
          \<and> (files w sid = Some (Stored old) \<or> files w sid = None \<and> old = [])
          \<and> json_dump lib (dict_merge old rv) = Some e
          \<and> files w' = (files w)(sid \<mapsto> Garbled (truncated_json_message lib (dict_merge old rv))))"
proof (cases "rewrite_tree fs tree = []")
  case True
  with assms show ?thesis by (simp add: execute_tree_def)
next
  case False
  obtain rx s where e: "exec_block (assigned_names_block (rewrite_tree fs tree)) mcp
      (timeout_for k) fuel (rewrite_tree fs tree) (initial_state globals w) = (rx, s)"
    by (cases "exec_block (assigned_names_block (rewrite_tree fs tree)) mcp
      (timeout_for k) fuel (rewrite_tree fs tree) (initial_state globals w)")
  show ?thesis
  proof (cases rx)
    case (Ok outcome)
    with assms e False
    have "collect_result lib sid (returned_value outcome) (w\<lparr>events := history s\<rparr>)
            = (Raised e, w')"
      by (simp add: execute_tree_def Let_def)
    from collect_result_raised [OF this] show ?thesis by simp
  qed (use assms e False in \<open>auto simp: execute_tree_def Let_def\<close>)
qed

lemma run_checked_failure:
  assumes "run_checked lib mcp fuel code sid k w = (Ok (Failure v), w')"
  shows "files w' = files w"
proof -
  obtain b w1 where b: "build_safe_globals (tool_proxies mcp) sid (log_event ToolsListed w)
      = (b, w1)"
    by (cases "build_safe_globals (tool_proxies mcp) sid (log_event ToolsListed w)")
  then have f: "files w1 = files w"
    using build_safe_globals_files [OF b] by (simp add: log_event_def)
  from assms b f execute_tree_failure [of lib mcp fuel sid k _ _ _ w1 v w'] show ?thesis
    by (auto simp: run_checked_def Let_def split: sum.splits)
qed

lemma run_checked_raised:
  assumes "run_checked lib mcp fuel code sid k w = (Raised e, w')"
  shows "files w' = files w
    \<or> (\<exists>rv old. log_json_block lib rv = None
          \<and> (files w sid = Some (Stored old) \<or> files w sid = None \<and> old = [])
          \<and> json_dump lib (dict_merge old rv) = Some e
          \<and> files w' = (files w)(sid \<mapsto> Garbled (truncated_json_message lib (dict_merge old rv))))"
proof -
  obtain b w1 where b: "build_safe_globals (tool_proxies mcp) sid (log_event ToolsListed w)
      = (b, w1)"
    by (cases "build_safe_globals (tool_proxies mcp) sid (log_event ToolsListed w)")
  then have f: "files w1 = files w"
    using build_safe_globals_files [OF b] by (simp add: log_event_def)
  show ?thesis
  proof (cases b)
    case (Inl e')
    with assms b f show ?thesis by (simp add: run_checked_def Let_def)
  next
    case (Inr globals)
    show ?thesis
    proof (cases "ast_parse lib (cleaned_code lib code)")
      case (Inl e')
      with assms b f Inr show ?thesis by (simp add: run_checked_def Let_def)
    next
      case (Inr tree)
      with assms b \<open>b = Inr globals\<close>
      have "execute_tree lib mcp fuel sid k (map fst (tool_proxies mcp)) globals tree w1
          = (Raised e, w')"
        by (simp add: run_checked_def Let_def)
      from execute_tree_raised [OF this] f show ?thesis by simp
    qed
  qed
qed

text \<open>
  Claim C10, as amended. Whenever \<^verbatim>\<open>run_user_code\<close> answers with an error envelope (the
  rejection of a script with too many calls, the timeout, a flagged value, or an exception
  that one of its handlers reports), the session files are what they were before the
  request, with one exception: the save itself. \<^verbatim>\<open>save_session_vars\<close> is reached only after
  the result mapping has been produced, has passed both scans and has been logged; when
  its \<^verbatim>\<open>json.dump\<close> of the merged record raises, the answer is the error envelope of that
  exception and the file of the session is left with truncated text.
\<close>

theorem error_envelope_keeps_record_unless_save_raised:
  assumes answered: "run_user_code lib mcp fuel code sid w = (Ok (Failure m), w')"
  shows "files w' = files w
    \<or> (\<exists>counted result_value old e.
          ast_parse lib code = Inr counted
          \<and> log_json_block lib result_value = None
          \<and> (files w sid = Some (Stored old) \<or> files w sid = None \<and> old = [])
          \<and> json_dump lib (dict_merge old result_value) = Some e
          \<and> on_exception lib (Some (count_function_calls counted)) e = Ok (Failure m)
          \<and> files w' = (files w)(sid \<mapsto>
                Garbled (truncated_json_message lib (dict_merge old result_value))))"
proof (cases "ast_parse lib code")
  case (Inl e)
  with answered show ?thesis by (simp add: run_user_code_def)
next
  case (Inr counted)
  show ?thesis
  proof (cases "MAX_FUNCTIONS < count_function_calls counted")
    case True
    with answered Inr show ?thesis by (simp add: run_user_code_def)
  next
    case False
    let ?k = "count_function_calls counted"
    obtain rc wc where c: "run_checked lib mcp fuel code sid ?k w = (rc, wc)"
      by (cases "run_checked lib mcp fuel code sid ?k w")
    show ?thesis
    proof (cases rc)
      case (Ok envelope)
      with answered Inr False c have "run_checked lib mcp fuel code sid ?k w = (Ok (Failure m), w')"
        by (simp add: run_user_code_def Let_def)
      from run_checked_failure [OF this] show ?thesis by simp
    next
      case (Raised e)
      with answered Inr False c have w: "wc = w'"
        and m: "on_exception lib (Some ?k) e = Ok (Failure m)"
        by (simp_all add: run_user_code_def Let_def)
      from c Raised w have "run_checked lib mcp fuel code sid ?k w = (Raised e, w')" by simp
      from run_checked_raised [OF this] Inr m show ?thesis by blast
    qed (use answered Inr False c in \<open>simp_all add: run_user_code_def Let_def\<close>)
  qed
qed

text \<open>
  An instance: the session \<^verbatim>\<open>s\<close> holds \<^verbatim>\<open>{"a": 1}\<close>, and the script \<^verbatim>\<open>x = [math]\<close>,
  \<^verbatim>\<open>return x\<close> returns a list with a module in it. The list passes the serializer and both
  scans. The logger of the example library raises wherever its encoder does, so the save
  is not reached, and the record is still \<^verbatim>\<open>{"a": 1}\<close>.
\<close>

lemma encoder_error_dict_set:
  "encoder_error_items d = None \<Longrightarrow> encoder_error v = None
    \<Longrightarrow> encoder_error_items (dict_set d k v) = None"
  by (induction d) (auto split: option.splits)

lemma encoder_error_dict_merge:
  "encoder_error_items d = None \<Longrightarrow> encoder_error_items m = None
    \<Longrightarrow> encoder_error_items (dict_merge d m) = None"
  by (induction d m rule: dict_merge.induct) (auto simp: encoder_error_dict_set split: option.splits)

lemma module_list_answer:
  "run_user_code example_lib example_mcp 0 module_list_script ''s'' one_session
     = (Ok (Failure (VStr ''TypeError: Object of type module is not JSON serializable'')),
        snd (run_user_code example_lib example_mcp 0 module_list_script ''s'' one_session))"
proof -
  have "fst (run_user_code example_lib example_mcp 0 module_list_script ''s'' one_session)
     = Ok (Failure (VStr ''TypeError: Object of type module is not JSON serializable''))"
    by code_simp
  then show ?thesis by (simp add: prod_eq_iff)
qed

theorem error_envelope_keeps_record_unless_save_raised_witness:
  "fst (run_user_code example_lib example_mcp 0 module_list_script ''s'' one_session)
     = Ok (Failure (VStr ''TypeError: Object of type module is not JSON serializable''))
   \<and> files (snd (run_user_code example_lib example_mcp 0 module_list_script ''s'' one_session))
     = files one_session"
proof -
  have "encoder_error_items old = None \<Longrightarrow> encoder_error_items rv = None
      \<Longrightarrow> encoder_error_items (dict_merge old rv) \<noteq> Some e" for old rv e
    by (simp add: encoder_error_dict_merge)
  with error_envelope_keeps_record_unless_save_raised [OF module_list_answer]
  have "files (snd (run_user_code example_lib example_mcp 0 module_list_script ''s'' one_session))
     = files one_session"
    by (auto simp: example_lib_fields one_session_fields digits_error_small)
  with module_list_answer show ?thesis by (simp add: prod_eq_iff)
qed

text \<open>
  Claim C10 as stated fails. \<^verbatim>\<open>log_json_block\<close> is imported from \<^verbatim>\<open>utils.utils\<close>; take a
  logger that prints the mapping and returns. The same script then reaches
  \<^verbatim>\<open>save_session_vars\<close>, whose \<^verbatim>\<open>json.dump\<close> raises at the module after the file has been
  opened for writing: the answer is the error envelope of the \<^verbatim>\<open>TypeError\<close>, and the session
  file no longer holds \<^verbatim>\<open>{"a": 1}\<close>. (A logger that encodes the mapping itself does not
  close the gap either: \<^verbatim>\<open>json.dumps\<close> escapes an unpaired surrogate, which the UTF-8 file
  of the save cannot take.)
\<close>

theorem failed_save_counterexample:
  "files one_session ''s'' = Some (Stored [(''a'', VInt 1)])
   \<and> fst (run_user_code (example_lib\<lparr>log_json_block := (\<lambda>block. None)\<rparr>) example_mcp 0
            module_list_script ''s'' one_session)
     = Ok (Failure (VStr ''TypeError: Object of type module is not JSON serializable''))
   \<and> files (snd (run_user_code (example_lib\<lparr>log_json_block := (\<lambda>block. None)\<rparr>) example_mcp 0
                   module_list_script ''s'' one_session)) ''s''
     = Some (Garbled ''Expecting value: line 4 column 5 (char 25)'')"
  by code_simp


section \<open>Where the source misses what it sets out to do\<close>

text \<open>
  Claim C5 at a failing input. The text \<^verbatim>\<open>x = """abc\<close> has one triple quote;
  \<^verbatim>\<open>cleaned_code\<close> closes it and the parser accepts the repaired text. But
  \<^verbatim>\<open>count_function_calls\<close> parses the text as it came, before the repair, and that
  parse fails: the answer is the error envelope of the \<^verbatim>\<open>SyntaxError\<close>, and the run stops
  before the tools are listed.
\<close>

theorem repair_comes_after_first_parse:
  "cleaned_code example_lib unterminated_script = unterminated_script @ [CHR 0x0A, dq, dq, dq]
   \<and> ast_parse example_lib (cleaned_code example_lib unterminated_script)
       = Inr [Assign (Name ''x'') [] (Constant (VStr ''abc\<newline>''))]
   \<and> fst (run_user_code example_lib example_mcp 0 unterminated_script ''s'' no_sessions)
       = Ok (Failure (VStr (''SyntaxError: unterminated triple-quoted string literal ''
                            @ ''(detected at line 1) (<unknown>, line 1)'')))
   \<and> events (snd (run_user_code example_lib example_mcp 0 unterminated_script ''s'' no_sessions))
       = []"
  by code_simp

text \<open>
  Claim C6 at a failing input. The script \<^verbatim>\<open>final_answer(42)\<close> has no return statement.
  The call stores 42 under \<^verbatim>\<open>result_holder\<close> in the sandbox, which nothing reads: the
  answer is the success envelope with \<^verbatim>\<open>{"result": None}\<close>, and that is what is saved.
\<close>

theorem final_answer_not_reported:
  "fst (run_user_code example_lib example_mcp 0 final_answer_script ''s'' no_sessions)
     = Ok (Success [(''result'', VNone)])
   \<and> files (snd (run_user_code example_lib example_mcp 0 final_answer_script ''s'' no_sessions)) ''s''
     = Some (Stored [(''result'', VNone)])"
  by code_simp

end
